theory Spec2Isabelle
  imports Complex_Main "HOL-Library.AList"
begin

section \<open>Numeric conventions\<close>

text \<open>
  Python floats are modelled as \<^typ>\<open>real\<close>; NaN, infinities and binary rounding are
  outside the model.  Python's \<^verbatim>\<open>round\<close> rounds to the nearest value with ties to even.
\<close>

definition round_half_even :: "real \<Rightarrow> int" where
  "round_half_even x =
     (let f = \<lfloor>x\<rfloor>; d = x - of_int f
      in if d < 1 / 2 then f
         else if 1 / 2 < d then f + 1
         else if even f then f else f + 1)"

definition py_round :: "real \<Rightarrow> nat \<Rightarrow> real" where
  "py_round x n = of_int (round_half_even (x * 10 ^ n)) / 10 ^ n"

section \<open>Legs (strategy.py, class Position)\<close>

record greeks =
  delta :: real
  gamma :: real
  theta :: real
  vega :: real
  iv :: real

record position =
  symbol :: string
  strike :: int
  option_type :: string
  side :: string
  entry_price :: real
  current_price :: real
  quantity :: int
  greeks :: greeks
  is_hedge :: bool
  leg_entry_time :: real

definition pnl :: "position \<Rightarrow> real" where
  "pnl p =
     (let sign = (if side p = ''SELL'' then - 1 else 1)
      in sign * (entry_price p - current_price p) * of_int (quantity p))"

definition delta_exposure :: "position \<Rightarrow> real" where
  "delta_exposure p =
     (let sign = (if side p = ''SELL'' then - 1 else 1)
      in sign * delta (greeks p) * of_int (quantity p))"


section \<open>Errors\<close>

text \<open>
  Python exceptions are values.  \<open>Deadlock\<close> stands for a thread that blocks for ever on
  the non-reentrant \<^verbatim>\<open>threading.Lock\<close> it already holds: the call never returns.
\<close>

datatype error = ZeroDivisionError | ValueError | KeyError | Deadlock

section \<open>Indicators (indicators.py)\<close>

subsection \<open>Supertrend\<close>

text \<open>
  A pandas float series is a list of \<^typ>\<open>real option\<close>, \<open>None\<close> being NaN; every
  comparison with NaN is false.  The input columns hold numbers.
\<close>

record bar =
  open_px :: real
  high :: real
  low :: real
  close :: real

definition nan_less :: "real option \<Rightarrow> real option \<Rightarrow> bool" where
  "nan_less a b = (case a of None \<Rightarrow> False | Some x \<Rightarrow> (case b of None \<Rightarrow> False | Some y \<Rightarrow> x < y))"

text \<open>
  Row 0 of \<^verbatim>\<open>close.shift(1)\<close> is NaN and \<^verbatim>\<open>max(axis=1)\<close> skips NaN, so the first true
  range is \<open>high - low\<close>.
\<close>

definition true_range :: "bar list \<Rightarrow> nat \<Rightarrow> real" where
  "true_range df i =
     (if i = 0 then high (df ! 0) - low (df ! 0)
      else max (high (df ! i) - low (df ! i))
             (max \<bar>high (df ! i) - close (df ! (i - 1))\<bar> \<bar>low (df ! i) - close (df ! (i - 1))\<bar>))"

text \<open>\<^verbatim>\<open>ewm(span=period, adjust=False).mean()\<close>: \<open>y\<^sub>0 = x\<^sub>0\<close>, \<open>y\<^sub>t = (1 - \<alpha>) y\<^sub>t\<^sub>-\<^sub>1 + \<alpha> x\<^sub>t\<close>
  with \<open>\<alpha> = 2 / (span + 1)\<close>.\<close>

fun ewm_from :: "real \<Rightarrow> real \<Rightarrow> real list \<Rightarrow> real list" where
  "ewm_from alpha y [] = []"
| "ewm_from alpha y (x # xs) =
     (let y' = (1 - alpha) * y + alpha * x in y' # ewm_from alpha y' xs)"

definition ewm_mean :: "int \<Rightarrow> real list \<Rightarrow> real list" where
  "ewm_mean spn xs =
     (case xs of [] \<Rightarrow> [] | x # rest \<Rightarrow> x # ewm_from (2 / (of_int spn + 1)) x rest)"

record st_state =
  supertrend :: "real option list"
  direction :: "int option list"

definition st_step :: "bar list \<Rightarrow> real list \<Rightarrow> real list \<Rightarrow> nat \<Rightarrow> st_state \<Rightarrow> st_state" where
  "st_step df upper_band lower_band i st =
     (let prev_close = Some (close (df ! (i - 1)));
          curr_close = Some (close (df ! i));
          final_ub =
            (if i = 1 then Some (upper_band ! i)
             else let prev_ub = (if direction st ! (i - 1) = Some (- 1) then supertrend st ! (i - 1)
                                 else Some (upper_band ! (i - 1)))
                  in if nan_less (Some (upper_band ! i)) prev_ub \<or> nan_less prev_ub prev_close
                     then Some (upper_band ! i) else prev_ub);
          final_lb =
            (if i = 1 then Some (lower_band ! i)
             else let prev_lb = (if direction st ! (i - 1) = Some 1 then supertrend st ! (i - 1)
                                 else Some (lower_band ! (i - 1)))
                  in if nan_less prev_lb (Some (lower_band ! i)) \<or> nan_less prev_close prev_lb
                     then Some (lower_band ! i) else prev_lb);
          prev_dir = (if 1 < i then direction st ! (i - 1) else Some 1)
      in if prev_dir = Some 1 then
           (if nan_less curr_close final_lb
            then st\<lparr>direction := (direction st)[i := Some (- 1)], supertrend := (supertrend st)[i := final_ub]\<rparr>
            else st\<lparr>direction := (direction st)[i := Some 1], supertrend := (supertrend st)[i := final_lb]\<rparr>)
         else
           (if nan_less final_ub curr_close
            then st\<lparr>direction := (direction st)[i := Some 1], supertrend := (supertrend st)[i := final_lb]\<rparr>
            else st\<lparr>direction := (direction st)[i := Some (- 1)], supertrend := (supertrend st)[i := final_ub]\<rparr>))"

definition direction_name :: "int option \<Rightarrow> string option" where
  "direction_name d =
     (if d = Some 1 then Some ''BULLISH'' else if d = Some (- 1) then Some ''BEARISH'' else None)"

record st_frame =
  supertrend_col :: "real option list"
  st_direction :: "string option list"

text \<open>pandas refuses a span below 1 before any bar is read.\<close>

definition compute_supertrend :: "bar list \<Rightarrow> int \<Rightarrow> real \<Rightarrow> error + st_frame" where
  "compute_supertrend df period multiplier =
     (if period < 1 then Inl ValueError
      else
        let n = length df;
            hl2 = map (\<lambda>b. (high b + low b) / 2) df;
            tr = map (true_range df) [0..<n];
            atr = ewm_mean period tr;
            upper_band = map (\<lambda>i. hl2 ! i + multiplier * atr ! i) [0..<n];
            lower_band = map (\<lambda>i. hl2 ! i - multiplier * atr ! i) [0..<n];
            st0 = \<lparr>supertrend = replicate n None, direction = replicate n None\<rparr>;
            st = fold (st_step df upper_band lower_band) [1..<n] st0
        in Inr \<lparr>supertrend_col = supertrend st, st_direction = map direction_name (direction st)\<rparr>)"

subsection \<open>Black-Scholes Greeks\<close>

text \<open>
  \<^verbatim>\<open>scipy.stats.norm.cdf\<close> is a library function and is a parameter \<open>norm_cdf\<close> of the
  model.  The faults that the \<^verbatim>\<open>try\<close> block catches over the reals are a zero strike, a
  logarithm of a non-positive ratio and a zero denominator.
\<close>

definition norm_pdf :: "real \<Rightarrow> real" where
  "norm_pdf x = exp (- (x * x) / 2) / sqrt (2 * pi)"

definition bs_fault :: "real \<Rightarrow> real \<Rightarrow> real \<Rightarrow> real \<Rightarrow> bool" where
  "bs_fault S K T sigma = (K = 0 \<or> S / K \<le> 0 \<or> sigma * sqrt T = 0)"

definition black_scholes_greeks ::
  "(real \<Rightarrow> real) \<Rightarrow> real \<Rightarrow> real \<Rightarrow> real \<Rightarrow> real \<Rightarrow> real \<Rightarrow> string \<Rightarrow> greeks" where
  "black_scholes_greeks norm_cdf S K T r sigma opt_type =
     (if T \<le> 0 then \<lparr>delta = 0, gamma = 0, theta = 0, vega = 0, iv = sigma\<rparr>
      else if bs_fault S K T sigma then \<lparr>delta = 0, gamma = 0, theta = 0, vega = 0, iv = sigma\<rparr>
      else
        let d1 = (ln (S / K) + (r + 0.5 * sigma ^ 2) * T) / (sigma * sqrt T);
            d2 = d1 - sigma * sqrt T;
            dlt = (if opt_type = ''CE'' then norm_cdf d1 else norm_cdf d1 - 1);
            gam = norm_pdf d1 / (S * sigma * sqrt T);
            veg = S * norm_pdf d1 * sqrt T * 0.01;
            tht = (- (S * norm_pdf d1 * sigma) / (2 * sqrt T)
                   - r * K * exp (- r * T) * (if opt_type = ''CE'' then norm_cdf d2 else norm_cdf (- d2)))
                  / 365
        in \<lparr>delta = py_round dlt 4, gamma = py_round gam 6, theta = py_round tht 4,
            vega = py_round veg 4, iv = sigma\<rparr>)"

text \<open>The call with the default rate 0.065 and volatility 0.15, as strategy.py makes it.\<close>

definition bs_default :: "(real \<Rightarrow> real) \<Rightarrow> real \<Rightarrow> real \<Rightarrow> real \<Rightarrow> string \<Rightarrow> greeks" where
  "bs_default norm_cdf S K T opt_type = black_scholes_greeks norm_cdf S K T 0.065 0.15 opt_type"

subsection \<open>Implied volatility\<close>

text \<open>One pass of the loop body: the new \<open>sigma\<close> and whether the loop is left.\<close>

definition iv_step ::
  "(real \<Rightarrow> real) \<Rightarrow> real \<Rightarrow> real \<Rightarrow> real \<Rightarrow> real \<Rightarrow> string \<Rightarrow> real \<Rightarrow> real \<Rightarrow> real \<times> bool" where
  "iv_step norm_cdf market_price S K T opt_type r sigma =
     (if bs_fault S K T sigma then (sigma, True)
      else
        let d1 = (ln (S / K) + (r + 0.5 * sigma ^ 2) * T) / (sigma * sqrt T);
            d2 = d1 - sigma * sqrt T;
            price = (if opt_type = ''CE''
                     then S * norm_cdf d1 - K * exp (- r * T) * norm_cdf d2
                     else K * exp (- r * T) * norm_cdf (- d2) - S * norm_cdf (- d1));
            vg = S * norm_pdf d1 * sqrt T
        in if \<bar>vg\<bar> < 1 / 10 ^ 10 then (sigma, True)
           else
             let diff = market_price - price;
                 sigma' = max 0.01 (min (sigma + diff / vg) 5.0)
             in (sigma', \<bar>diff\<bar> < 0.001))"

text \<open>\<open>iv_loop n\<close> is \<^verbatim>\<open>for _ in range(n)\<close>; it returns \<open>sigma\<close> and the number of passes made.\<close>

fun iv_loop ::
  "(real \<Rightarrow> real) \<Rightarrow> real \<Rightarrow> real \<Rightarrow> real \<Rightarrow> real \<Rightarrow> string \<Rightarrow> real \<Rightarrow> nat \<Rightarrow> real \<Rightarrow> real \<times> nat" where
  "iv_loop norm_cdf market_price S K T opt_type r 0 sigma = (sigma, 0)"
| "iv_loop norm_cdf market_price S K T opt_type r (Suc n) sigma =
     (case iv_step norm_cdf market_price S K T opt_type r sigma of
        (sigma', stop) \<Rightarrow>
          if stop then (sigma', 1)
          else (case iv_loop norm_cdf market_price S K T opt_type r n sigma' of
                  (s, k) \<Rightarrow> (s, Suc k)))"

definition estimate_iv_run ::
  "(real \<Rightarrow> real) \<Rightarrow> real \<Rightarrow> real \<Rightarrow> real \<Rightarrow> real \<Rightarrow> string \<Rightarrow> real \<Rightarrow> real \<times> nat" where
  "estimate_iv_run norm_cdf market_price S K T opt_type r =
     (if T \<le> 0 \<or> market_price \<le> 0 then (0.15, 0)
      else case iv_loop norm_cdf market_price S K T opt_type r 100 0.20 of
             (sigma, k) \<Rightarrow> (py_round sigma 4, k))"

definition estimate_iv_from_price ::
  "(real \<Rightarrow> real) \<Rightarrow> real \<Rightarrow> real \<Rightarrow> real \<Rightarrow> real \<Rightarrow> string \<Rightarrow> real \<Rightarrow> real" where
  "estimate_iv_from_price norm_cdf market_price S K T opt_type r =
     fst (estimate_iv_run norm_cdf market_price S K T opt_type r)"

subsection \<open>Gamma risk score\<close>

text \<open>A position is a dict read with \<^verbatim>\<open>get\<close> and defaults; a missing key is \<open>None\<close>.\<close>

record gamma_pos =
  gp_gamma :: "real option"
  gp_quantity :: "int option"
  gp_side :: "string option"

definition gamma_term :: "real \<Rightarrow> gamma_pos \<Rightarrow> real" where
  "gamma_term spot pos =
     (let gam = (case gp_gamma pos of None \<Rightarrow> 0 | Some g \<Rightarrow> g);
          qty = (case gp_quantity pos of None \<Rightarrow> 75 | Some q \<Rightarrow> q);
          sign = (if (case gp_side pos of None \<Rightarrow> ''SELL'' | Some sd \<Rightarrow> sd) = ''SELL'' then - 1 else 1)
      in sign * gam * of_int qty * spot)"

definition total_gamma_exposure :: "gamma_pos list \<Rightarrow> real \<Rightarrow> real" where
  "total_gamma_exposure positions spot = foldl (\<lambda>total pos. total + gamma_term spot pos) 0 positions"

definition compute_gamma_risk_score :: "gamma_pos list \<Rightarrow> real \<Rightarrow> real" where
  "compute_gamma_risk_score positions spot =
     (let clamped = max (- 50000) (min 50000 (total_gamma_exposure positions spot));
          score = 50 + (clamped / 50000) * 50
      in py_round score 2)"

section \<open>Collaborators of the strategy engine\<close>

subsection \<open>Configuration (config.py)\<close>

text \<open>
  strategy.py imports its thresholds from config.py, which defines only
  \<^verbatim>\<open>MAX_TRADES_PER_DAY\<close> and \<^verbatim>\<open>HEDGE_DELTA_TARGET\<close> of them.  The others are parameters.
\<close>

record config =
  CE_DELTA_TARGET :: real
  PE_DELTA_TARGET :: real
  GAMMA_L1_SPOT_MOVE :: real
  GAMMA_L1_PREMIUM_PCT :: real
  GAMMA_L2_DELTA_LIMIT :: real
  GAMMA_L3_SPOT_MOVE :: real
  GAMMA_L3_TIME_WINDOW :: real
  EXPIRY_OTM_OFFSET :: int
  EXPIRY_TARGET_PCT :: real
  EXPIRY_STOP_MULT :: real

definition MAX_TRADES_PER_DAY :: int where
  "MAX_TRADES_PER_DAY = 2"

definition HEDGE_DELTA_TARGET :: real where
  "HEDGE_DELTA_TARGET = 0.10"

definition NIFTY_LOT_SIZE :: int where
  "NIFTY_LOT_SIZE = 65"

definition STRIKE_STEP :: int where
  "STRIKE_STEP = 50"

subsection \<open>Clock and market-data gateway\<close>

text \<open>
  What one call reads from outside: the clock (\<open>now\<close> in seconds, the time of day in
  seconds since midnight, the calendar day), the quotes of the gateway, the nearest weekly
  expiry with its parsed timestamp, and scipy's normal distribution function.
\<close>

record env =
  now :: real
  time_of_day :: real
  today :: int
  spot_price :: "real option"
  option_ltp :: "string \<Rightarrow> real option"
  expiry :: string
  expiry_dt :: real
  norm_cdf :: "real \<Rightarrow> real"

text \<open>Python truth of an optional float: \<^verbatim>\<open>None\<close> and \<^verbatim>\<open>0.0\<close> are false.\<close>

definition truthy :: "real option \<Rightarrow> real option" where
  "truthy v = (case v of None \<Rightarrow> None | Some x \<Rightarrow> if x = 0 then None else Some x)"

fun digits_of :: "nat \<Rightarrow> string" where
  "digits_of n = (if n < 10 then [char_of (48 + n)] else digits_of (n div 10) @ [char_of (48 + n mod 10)])"

definition str_int :: "int \<Rightarrow> string" where
  "str_int i = (if i < 0 then CHR ''-'' # digits_of (nat (- i)) else digits_of (nat i))"

definition build_option_symbol :: "int \<Rightarrow> string \<Rightarrow> string \<Rightarrow> string" where
  "build_option_symbol strk opt_type expiry_str = ''NSE:NIFTY'' @ expiry_str @ str_int strk @ opt_type"

definition round_to_strike :: "real \<Rightarrow> int" where
  "round_to_strike price = round_half_even (price / 50) * 50"

subsection \<open>Persistence store (database.py)\<close>

record trade_row =
  t_id :: int
  t_trade_date :: int
  t_entry_time :: real
  t_exit_time :: "real option"
  t_ce_strike :: int
  t_pe_strike :: int
  t_ce_entry_px :: real
  t_pe_entry_px :: real
  t_ce_current_px :: real
  t_pe_current_px :: real
  t_ce_hedge_strike :: int
  t_pe_hedge_strike :: int
  t_ce_hedge_px :: real
  t_pe_hedge_px :: real
  t_quantity :: int
  t_premium_collected :: real
  t_realized_pnl :: real
  t_unrealized_pnl :: real
  t_status :: string
  t_close_reason :: "string option"
  t_adjustment_level :: int
  t_net_delta :: real
  t_gamma_score :: real
  t_strategy_type :: string

text \<open>
  The texts that the engine formats from numbers are kept as constructors holding the
  numbers: the action and reason of an adjustment, and the three kinds of alert.
\<close>

datatype adj_action = CLOSE_ALL | Roll_to_new_20_delta string int | Roll_untested_leg_closer

datatype adj_reason =
    Move_in_minutes real real
  | Delta_above_limit real real
  | Trigger_with_moves string real real

record adjustment_row =
  a_trade_id :: int
  a_adj_time :: real
  a_level :: int
  a_action :: adj_action
  a_reason :: adj_reason
  a_spot_at_adj :: real
  a_pnl_at_adj :: real

record summary_row =
  d_trade_date :: int
  d_total_trades :: nat
  d_winning_trades :: nat
  d_net_pnl :: real
  d_max_drawdown :: real
  d_capital_used :: real
  d_win_rate :: real

datatype alert =
    ENTRY int int real real real real
  | EXIT int real real string
  | GAMMA_ADJUSTMENT_LEVEL_2 adj_action real real
  | GAMMA_ADJUSTMENT_LEVEL_1 adj_action string real

text \<open>SQLite gives a new row the largest id in use plus one, and 1 in an empty table.\<close>

definition next_trade_id :: "trade_row list \<Rightarrow> int" where
  "next_trade_id rows = foldr max (map t_id rows) 0 + 1"

definition update_trade :: "int \<Rightarrow> (trade_row \<Rightarrow> trade_row) \<Rightarrow> trade_row list \<Rightarrow> trade_row list" where
  "update_trade trade_id updates rows = map (\<lambda>r. if t_id r = trade_id then updates r else r) rows"

definition get_open_trades :: "trade_row list \<Rightarrow> trade_row list" where
  "get_open_trades rows = filter (\<lambda>r. t_status r = ''OPEN'') rows"

definition get_trades_for_date :: "int \<Rightarrow> trade_row list \<Rightarrow> trade_row list" where
  "get_trades_for_date d rows = filter (\<lambda>r. t_trade_date r = d) rows"

definition get_trade_count_today :: "int \<Rightarrow> trade_row list \<Rightarrow> int" where
  "get_trade_count_today d rows = int (length (filter (\<lambda>r. t_trade_date r = d) rows))"

definition upsert_daily_summary :: "summary_row \<Rightarrow> summary_row list \<Rightarrow> summary_row list" where
  "upsert_daily_summary summary rows =
     (if \<exists>r \<in> set rows. d_trade_date r = d_trade_date summary
      then map (\<lambda>r. if d_trade_date r = d_trade_date summary then summary else r) rows
      else rows @ [summary])"

section \<open>The strategy engine (strategy.py, class GammaStrangleStrategy)\<close>

text \<open>
  The state is the object's fields, the lock, and what the engine has written to its
  collaborators: the rows of the store and the alerts sent.  A dict is an association list
  in insertion order.  An operation returns its result or the exception raised, and the
  state reached; an exception does not undo the writes made before it.
\<close>

record state =
  capital :: real
  risk_pct :: real
  num_lots :: int
  is_running :: bool
  lock_held :: bool
  active_positions :: "(int \<times> position list) list"
  entry_spot :: "(int \<times> real) list"
  entry_time :: "(int \<times> real) list"
  adjustment_counts :: "(int \<times> int) list"
  trade_premium :: "(int \<times> real) list"
  spot :: real
  supertrend_dir :: string
  vwap :: real
  cur_trade_date :: int
  trades_today :: int
  daily_pnl :: real
  db_trades :: "trade_row list"
  db_adjustments :: "adjustment_row list"
  db_daily_summary :: "summary_row list"
  alerts :: "alert list"

definition init :: "real \<Rightarrow> real \<Rightarrow> int \<Rightarrow> int \<Rightarrow> trade_row list \<Rightarrow> adjustment_row list \<Rightarrow> summary_row list \<Rightarrow> state" where
  "init cap rp lots day trades adjs summaries =
     \<lparr>capital = cap, risk_pct = rp, num_lots = max 1 lots, is_running = False, lock_held = False,
      active_positions = [], entry_spot = [], entry_time = [], adjustment_counts = [],
      trade_premium = [], spot = 0, supertrend_dir = ''UNKNOWN'', vwap = 0,
      cur_trade_date = day, trades_today = 0, daily_pnl = 0,
      db_trades = trades, db_adjustments = adjs, db_daily_summary = summaries, alerts = []\<rparr>"

text \<open>
  \<^verbatim>\<open>with self._lock:\<close> on a \<^verbatim>\<open>threading.Lock\<close>.  The lock is not reentrant: taking it
  while it is held blocks for ever, and a body that blocks never releases it.
\<close>

definition with_lock :: "(state \<Rightarrow> (error + 'a) \<times> state) \<Rightarrow> state \<Rightarrow> (error + 'a) \<times> state" where
  "with_lock body s =
     (if lock_held s then (Inl Deadlock, s)
      else case body (s\<lparr>lock_held := True\<rparr>) of
             (r, s') \<Rightarrow> if r = Inl Deadlock then (r, s') else (r, s'\<lparr>lock_held := False\<rparr>))"

definition start :: "state \<Rightarrow> state" where
  "start s = s\<lparr>is_running := True\<rparr>"

definition stop :: "state \<Rightarrow> state" where
  "stop s = s\<lparr>is_running := False\<rparr>"

definition calculate_mtm :: "state \<Rightarrow> int option \<Rightarrow> real" where
  "calculate_mtm s trade_id =
     (case trade_id of
        Some tid \<Rightarrow>
          (let positions = (case map_of (active_positions s) tid of None \<Rightarrow> [] | Some ps \<Rightarrow> ps)
           in sum_list (map pnl positions))
      | None \<Rightarrow> sum_list (map (\<lambda>positions. sum_list (map pnl positions)) (map snd (active_positions s))))"

definition close_position :: "env \<Rightarrow> int \<Rightarrow> string \<Rightarrow> state \<Rightarrow> (error + real) \<times> state" where
  "close_position e trade_id reason s =
     (if map_of (active_positions s) trade_id = None then (Inr 0, s)
      else
        let p = calculate_mtm s (Some trade_id) in
        case with_lock (\<lambda>s0. (Inr (),
               s0\<lparr>active_positions := AList.delete trade_id (active_positions s0),
                  entry_spot := AList.delete trade_id (entry_spot s0),
                  entry_time := AList.delete trade_id (entry_time s0),
                  adjustment_counts := AList.delete trade_id (adjustment_counts s0),
                  trade_premium := AList.delete trade_id (trade_premium s0)\<rparr>)) s of
          (Inl err, s1) \<Rightarrow> (Inl err, s1)
        | (Inr u, s1) \<Rightarrow>
            let s2 = s1\<lparr>daily_pnl := daily_pnl s1 + p\<rparr>;
                s3 = s2\<lparr>db_trades := update_trade trade_id
                         (\<lambda>r. r\<lparr>t_status := ''CLOSED'', t_exit_time := Some (now e),
                                t_realized_pnl := p, t_unrealized_pnl := 0,
                                t_close_reason := Some reason\<rparr>) (db_trades s2)\<rparr>
            in if capital s3 = 0 then (Inl ZeroDivisionError, s3)
               else (Inr p, s3\<lparr>alerts := alerts s3 @ [EXIT trade_id p (p / capital s3 * 100) reason]\<rparr>))"

text \<open>A call whose returned value is not used.\<close>

definition discard :: "(error + 'a) \<times> state \<Rightarrow> (error + unit) \<times> state" where
  "discard res = (case res of (Inl err, s') \<Rightarrow> (Inl err, s') | (Inr v, s') \<Rightarrow> (Inr (), s'))"

definition force_close_trade :: "env \<Rightarrow> int \<Rightarrow> string \<Rightarrow> state \<Rightarrow> (error + unit) \<times> state" where
  "force_close_trade e trade_id reason s = discard (close_position e trade_id reason s)"

text \<open>\<^verbatim>\<open>for trade_id in list(self.active_positions.keys())\<close>, closing each; an exception
  leaves the loop.\<close>

fun force_close_each :: "env \<Rightarrow> string \<Rightarrow> int list \<Rightarrow> state \<Rightarrow> (error + unit) \<times> state" where
  "force_close_each e reason [] s = (Inr (), s)"
| "force_close_each e reason (trade_id # rest) s =
     (case force_close_trade e trade_id reason s of
        (Inl err, s') \<Rightarrow> (Inl err, s')
      | (Inr u, s') \<Rightarrow> force_close_each e reason rest s')"

definition reset_day :: "env \<Rightarrow> state \<Rightarrow> (error + unit) \<times> state" where
  "reset_day e s =
     with_lock (\<lambda>s0.
       case force_close_each e ''DAY_RESET'' (map fst (active_positions s0)) s0 of
         (Inl err, s1) \<Rightarrow> (Inl err, s1)
       | (Inr u, s1) \<Rightarrow>
           (Inr (), s1\<lparr>active_positions := [], entry_spot := [], entry_time := [],
                       adjustment_counts := [], trade_premium := [],
                       trades_today := 0, daily_pnl := 0, cur_trade_date := today e\<rparr>)) s"

fun close_each :: "env \<Rightarrow> string \<Rightarrow> int list \<Rightarrow> real \<Rightarrow> state \<Rightarrow> (error + real) \<times> state" where
  "close_each e reason [] total_pnl s = (Inr total_pnl, s)"
| "close_each e reason (trade_id # rest) total_pnl s =
     (case close_position e trade_id reason s of
        (Inl err, s') \<Rightarrow> (Inl err, s')
      | (Inr p, s') \<Rightarrow> close_each e reason rest (total_pnl + p) s')"

definition close_all_positions :: "env \<Rightarrow> string \<Rightarrow> state \<Rightarrow> (error + real) \<times> state" where
  "close_all_positions e reason s = close_each e reason (map fst (active_positions s)) 0 s"

definition check_entry :: "env \<Rightarrow> state \<Rightarrow> bool \<times> state" where
  "check_entry e s =
     (if \<not> is_running s then (False, s)
      else if \<not> (33600 \<le> time_of_day e \<and> time_of_day e \<le> 53100) then (False, s)
      else
        let s1 = (if cur_trade_date s \<noteq> today e
                  then s\<lparr>trades_today := get_trade_count_today (today e) (db_trades s),
                         cur_trade_date := today e\<rparr>
                  else s)
        in if MAX_TRADES_PER_DAY \<le> trades_today s1 then (False, s1)
           else
             let max_loss = capital s1 * (risk_pct s1 / 100)
             in if daily_pnl s1 \<le> - max_loss then (False, s1)
                else if supertrend_dir s1 = ''UNKNOWN'' then (False, s1)
                else if 1 \<le> length (get_open_trades (db_trades s1)) then (False, s1)
                else (True, s1))"

definition time_to_expiry :: "env \<Rightarrow> real" where
  "time_to_expiry e = max ((expiry_dt e - now e) / (365 * 24 * 3600)) 0.001"

text \<open>The theoretical price used when no live quote is available; the logarithm, the
  division and the square root raise on the inputs they reject.\<close>

definition bs_fallback_price :: "env \<Rightarrow> real \<Rightarrow> int \<Rightarrow> real \<Rightarrow> string \<Rightarrow> error + real" where
  "bs_fallback_price e spt strk T opt_type =
     (if 0 < T \<and> strk = 0 then Inl ZeroDivisionError
      else if 0 < T \<and> spt / of_int strk \<le> 0 then Inl ValueError
      else if T < 0 then Inl ValueError
      else
        let d1 = (if 0 < T
                  then (ln (spt / of_int strk) + (0.065 + 0.5 * 0.15 ^ 2) * T) / (0.15 * sqrt T)
                  else 0);
            price = (if opt_type = ''CE''
                     then spt * norm_cdf e d1
                          - of_int strk * exp (- 0.065 * T) * norm_cdf e (d1 - 0.15 * sqrt T)
                     else of_int strk * exp (- 0.065 * T) * norm_cdf e (- (d1 - 0.15 * sqrt T))
                          - spt * norm_cdf e (- d1))
        in Inr (max 0.05 (py_round price 2)))"

definition get_simulated_ltp :: "env \<Rightarrow> string \<Rightarrow> real \<Rightarrow> int \<Rightarrow> real \<Rightarrow> string \<Rightarrow> error + real" where
  "get_simulated_ltp e smb spt strk T opt_type =
     (case truthy (option_ltp e smb) of
        Some ltp \<Rightarrow> if 0 < ltp then Inr ltp else bs_fallback_price e spt strk T opt_type
      | None \<Rightarrow> bs_fallback_price e spt strk T opt_type)"

text \<open>\<^verbatim>\<open>range(base - 1500, base + 1550, 50)\<close> has 61 strikes; \<open>best_diff\<close> starts at infinity,
  written \<open>None\<close>.\<close>

definition find_strike_by_delta :: "env \<Rightarrow> real \<Rightarrow> real \<Rightarrow> real \<Rightarrow> string \<Rightarrow> int" where
  "find_strike_by_delta e spt T target_delta opt_type =
     (let search_range = map (\<lambda>k. round_to_strike spt - 1500 + STRIKE_STEP * int k) [0..<61]
      in fst (foldl
           (\<lambda>(best_strike, best_diff) strk.
              let g = bs_default (norm_cdf e) spt (of_int strk) T opt_type;
                  diff = \<bar>\<bar>delta g\<bar> - target_delta\<bar>
              in if (case best_diff of None \<Rightarrow> True | Some bd \<Rightarrow> diff < bd)
                 then (strk, Some diff) else (best_strike, best_diff))
           (round_to_strike spt, None) search_range))"

text \<open>The constructor of \<^verbatim>\<open>Position\<close>: the current price starts at the entry price.\<close>

definition Position :: "env \<Rightarrow> string \<Rightarrow> int \<Rightarrow> string \<Rightarrow> string \<Rightarrow> real \<Rightarrow> int \<Rightarrow> greeks \<Rightarrow> bool \<Rightarrow> position" where
  "Position e smb strk opt_type sd px qty g hedge =
     \<lparr>symbol = smb, strike = strk, option_type = opt_type, side = sd, entry_price = px,
      current_price = px, quantity = qty, greeks = g, is_hedge = hedge, leg_entry_time = now e\<rparr>"

definition select_strikes :: "config \<Rightarrow> env \<Rightarrow> string \<Rightarrow> real \<Rightarrow> real \<Rightarrow> int \<times> int \<times> int \<times> int" where
  "select_strikes cfg e strategy_type spt T =
     (if strategy_type = ''EXPIRY'' \<and> 35100 \<le> time_of_day e
      then let atm = round_to_strike spt;
               ce_strike = atm + EXPIRY_OTM_OFFSET cfg;
               pe_strike = atm - EXPIRY_OTM_OFFSET cfg
           in (ce_strike, pe_strike, ce_strike + 150, pe_strike - 150)
      else (find_strike_by_delta e spt T (CE_DELTA_TARGET cfg) ''CE'',
            find_strike_by_delta e spt T \<bar>PE_DELTA_TARGET cfg\<bar> ''PE'',
            find_strike_by_delta e spt T HEDGE_DELTA_TARGET ''CE'',
            find_strike_by_delta e spt T HEDGE_DELTA_TARGET ''PE''))"

text \<open>The four quotes, in the order of the source; the first exception ends the call.\<close>

definition fetch_ltps :: "env \<Rightarrow> real \<Rightarrow> real \<Rightarrow> int \<times> int \<times> int \<times> int \<Rightarrow> error + real \<times> real \<times> real \<times> real" where
  "fetch_ltps e spt T strikes =
     (case strikes of (ce_strike, pe_strike, ce_hedge_strike, pe_hedge_strike) \<Rightarrow>
        (case get_simulated_ltp e (build_option_symbol ce_strike ''CE'' (expiry e)) spt ce_strike T ''CE'' of
           Inl err \<Rightarrow> Inl err
         | Inr ce_px \<Rightarrow>
        (case get_simulated_ltp e (build_option_symbol pe_strike ''PE'' (expiry e)) spt pe_strike T ''PE'' of
           Inl err \<Rightarrow> Inl err
         | Inr pe_px \<Rightarrow>
        (case get_simulated_ltp e (build_option_symbol ce_hedge_strike ''CE'' (expiry e)) spt ce_hedge_strike T ''CE'' of
           Inl err \<Rightarrow> Inl err
         | Inr ceh_px \<Rightarrow>
        (case get_simulated_ltp e (build_option_symbol pe_hedge_strike ''PE'' (expiry e)) spt pe_hedge_strike T ''PE'' of
           Inl err \<Rightarrow> Inl err
         | Inr peh_px \<Rightarrow> Inr (ce_px, pe_px, ceh_px, peh_px))))))"

definition build_positions ::
  "env \<Rightarrow> real \<Rightarrow> real \<Rightarrow> int \<Rightarrow> int \<times> int \<times> int \<times> int \<Rightarrow> real \<times> real \<times> real \<times> real \<Rightarrow> position list" where
  "build_positions e spt T qty strikes prices =
     (case strikes of (ce_strike, pe_strike, ce_hedge_strike, pe_hedge_strike) \<Rightarrow>
      case prices of (ce_px, pe_px, ceh_px, peh_px) \<Rightarrow>
        [Position e (build_option_symbol ce_strike ''CE'' (expiry e)) ce_strike ''CE'' ''SELL'' ce_px qty
           (bs_default (norm_cdf e) spt (of_int ce_strike) T ''CE'') False,
         Position e (build_option_symbol pe_strike ''PE'' (expiry e)) pe_strike ''PE'' ''SELL'' pe_px qty
           (bs_default (norm_cdf e) spt (of_int pe_strike) T ''PE'') False,
         Position e (build_option_symbol ce_hedge_strike ''CE'' (expiry e)) ce_hedge_strike ''CE'' ''BUY'' ceh_px qty
           (bs_default (norm_cdf e) spt (of_int ce_hedge_strike) T ''CE'') True,
         Position e (build_option_symbol pe_hedge_strike ''PE'' (expiry e)) pe_hedge_strike ''PE'' ''BUY'' peh_px qty
           (bs_default (norm_cdf e) spt (of_int pe_hedge_strike) T ''PE'') True])"

definition new_trade_row ::
  "env \<Rightarrow> int \<Rightarrow> string \<Rightarrow> real \<Rightarrow> int \<Rightarrow> real \<Rightarrow> int \<times> int \<times> int \<times> int \<Rightarrow> real \<times> real \<times> real \<times> real
   \<Rightarrow> position list \<Rightarrow> trade_row" where
  "new_trade_row e trade_id strategy_type spt qty premium strikes prices positions =
     (case strikes of (ce_strike, pe_strike, ce_hedge_strike, pe_hedge_strike) \<Rightarrow>
      case prices of (ce_px, pe_px, ceh_px, peh_px) \<Rightarrow>
        \<lparr>t_id = trade_id, t_trade_date = today e, t_entry_time = now e, t_exit_time = None,
         t_ce_strike = ce_strike, t_pe_strike = pe_strike,
         t_ce_entry_px = ce_px, t_pe_entry_px = pe_px,
         t_ce_current_px = ce_px, t_pe_current_px = pe_px,
         t_ce_hedge_strike = ce_hedge_strike, t_pe_hedge_strike = pe_hedge_strike,
         t_ce_hedge_px = ceh_px, t_pe_hedge_px = peh_px,
         t_quantity = qty, t_premium_collected = premium,
         t_realized_pnl = 0, t_unrealized_pnl = 0, t_status = ''OPEN'', t_close_reason = None,
         t_adjustment_level = 0,
         t_net_delta = sum_list (map delta_exposure positions),
         t_gamma_score = compute_gamma_risk_score
           (map (\<lambda>p. \<lparr>gp_gamma = Some (gamma (greeks p)), gp_quantity = Some qty, gp_side = Some (side p)\<rparr>)
              positions) spt,
         t_strategy_type = strategy_type\<rparr>)"

definition open_position :: "config \<Rightarrow> env \<Rightarrow> string \<Rightarrow> state \<Rightarrow> (error + int option) \<times> state" where
  "open_position cfg e strategy_type s =
     (case check_entry e s of
        (False, s1) \<Rightarrow> (Inr None, s1)
      | (True, s1) \<Rightarrow>
          (case truthy (spot_price e) of
             None \<Rightarrow> (Inr None, s1)
           | Some spt \<Rightarrow>
               let s2 = s1\<lparr>spot := spt\<rparr>;
                   T = time_to_expiry e;
                   strikes = select_strikes cfg e strategy_type spt T
               in (case fetch_ltps e spt T strikes of
                     Inl err \<Rightarrow> (Inl err, s2)
                   | Inr (ce_px, pe_px, ceh_px, peh_px) \<Rightarrow>
                       let qty = NIFTY_LOT_SIZE * num_lots s2;
                           premium = (ce_px + pe_px - ceh_px - peh_px) * of_int qty;
                           max_loss_allowed = capital s2 * (risk_pct s2 / 100);
                           estimated_max_loss = \<bar>pe_px\<bar> * of_int qty
                       in if max_loss_allowed < estimated_max_loss then (Inr None, s2)
                          else
                            let positions = build_positions e spt T qty strikes (ce_px, pe_px, ceh_px, peh_px);
                                trade_id = next_trade_id (db_trades s2);
                                s3 = s2\<lparr>db_trades := db_trades s2 @
                                       [new_trade_row e trade_id strategy_type spt qty premium strikes
                                          (ce_px, pe_px, ceh_px, peh_px) positions]\<rparr>
                            in (case with_lock (\<lambda>s0. (Inr (),
                                      s0\<lparr>active_positions := AList.update trade_id positions (active_positions s0),
                                         entry_spot := AList.update trade_id spt (entry_spot s0),
                                         entry_time := AList.update trade_id (now e) (entry_time s0),
                                         adjustment_counts := AList.update trade_id 0 (adjustment_counts s0),
                                         trade_premium := AList.update trade_id premium (trade_premium s0),
                                         trades_today := trades_today s0 + 1\<rparr>)) s3 of
                                  (Inl err, s4) \<Rightarrow> (Inl err, s4)
                                | (Inr u, s4) \<Rightarrow>
                                    (Inr (Some trade_id),
                                     s4\<lparr>alerts := alerts s4 @
                                        [ENTRY (fst strikes) (fst (snd strikes)) premium estimated_max_loss
                                           (risk_pct s4) spt]\<rparr>)))))"

subsection \<open>Monitoring and the gamma defence\<close>

text \<open>Refreshing the legs one by one; an exception keeps the legs already refreshed.\<close>

fun refresh_legs :: "env \<Rightarrow> real \<Rightarrow> real \<Rightarrow> position list \<Rightarrow> error option \<times> position list" where
  "refresh_legs e spt T [] = (None, [])"
| "refresh_legs e spt T (pos # rest) =
     (case get_simulated_ltp e (symbol pos) spt (strike pos) T (option_type pos) of
        Inl err \<Rightarrow> (Some err, pos # rest)
      | Inr new_px \<Rightarrow>
          (case refresh_legs e spt T rest of
             (r, rest') \<Rightarrow>
               (r, pos\<lparr>current_price := new_px,
                        greeks := bs_default (norm_cdf e) spt (of_int (strike pos)) T (option_type pos)\<rparr>
                   # rest')))"

definition update_position_prices :: "env \<Rightarrow> int \<Rightarrow> real \<Rightarrow> state \<Rightarrow> (error + unit) \<times> state" where
  "update_position_prices e trade_id spt s =
     (case map_of (active_positions s) trade_id of
        None \<Rightarrow> (Inr (), s\<lparr>db_trades := update_trade trade_id (\<lambda>r. r\<lparr>t_unrealized_pnl := 0\<rparr>) (db_trades s)\<rparr>)
      | Some positions \<Rightarrow>
          (case refresh_legs e spt (time_to_expiry e) positions of
             (Some err, positions') \<Rightarrow>
               (Inl err, s\<lparr>active_positions := AList.update trade_id positions' (active_positions s)\<rparr>)
           | (None, positions') \<Rightarrow>
               (Inr (), s\<lparr>active_positions := AList.update trade_id positions' (active_positions s),
                          db_trades := update_trade trade_id
                            (\<lambda>r. r\<lparr>t_unrealized_pnl := sum_list (map pnl positions')\<rparr>) (db_trades s)\<rparr>)))"

definition record_adjustment ::
  "env \<Rightarrow> int \<Rightarrow> int \<Rightarrow> adj_action \<Rightarrow> adj_reason \<Rightarrow> real \<Rightarrow> real \<Rightarrow> state \<Rightarrow> state" where
  "record_adjustment e trade_id level action reason spt p s =
     s\<lparr>db_adjustments := db_adjustments s @
          [\<lparr>a_trade_id = trade_id, a_adj_time = now e, a_level = level, a_action = action,
            a_reason = reason, a_spot_at_adj = spt, a_pnl_at_adj = p\<rparr>],
       db_trades := update_trade trade_id (\<lambda>r. r\<lparr>t_adjustment_level := level\<rparr>) (db_trades s)\<rparr>"

text \<open>\<^verbatim>\<open>positions.remove(old_pos)\<close> takes out the first occurrence and raises when there is none.\<close>

definition roll_leg :: "env \<Rightarrow> int \<Rightarrow> position \<Rightarrow> real \<Rightarrow> state \<Rightarrow> (error + unit) \<times> state" where
  "roll_leg e trade_id old_pos spt s =
     (let T = time_to_expiry e;
          new_strike = find_strike_by_delta e spt T 0.20 (option_type old_pos);
          new_sym = build_option_symbol new_strike (option_type old_pos) (expiry e)
      in case get_simulated_ltp e new_sym spt new_strike T (option_type old_pos) of
           Inl err \<Rightarrow> (Inl err, s)
         | Inr new_px \<Rightarrow>
             let new_greeks = bs_default (norm_cdf e) spt (of_int new_strike) T (option_type old_pos)
             in (case map_of (active_positions s) trade_id of
                   None \<Rightarrow> (Inl KeyError, s)
                 | Some positions \<Rightarrow>
                     if old_pos \<notin> set positions then (Inl ValueError, s)
                     else (Inr (),
                           s\<lparr>active_positions := AList.update trade_id
                                (remove1 old_pos positions @
                                   [Position e new_sym new_strike (option_type old_pos) ''SELL'' new_px
                                      (quantity old_pos) new_greeks False])
                                (active_positions s)\<rparr>)))"

text \<open>\<^verbatim>\<open>max(xs, key=f)\<close> on a non-empty list: the first element with the greatest key.\<close>

fun first_max_by :: "('a \<Rightarrow> real) \<Rightarrow> 'a \<Rightarrow> 'a list \<Rightarrow> 'a" where
  "first_max_by f best [] = best"
| "first_max_by f best (x # xs) = first_max_by f (if f best < f x then x else best) xs"

definition roll_untested_leg :: "env \<Rightarrow> int \<Rightarrow> real \<Rightarrow> state \<Rightarrow> (error + unit) \<times> state" where
  "roll_untested_leg e trade_id spt s =
     (case map_of (active_positions s) trade_id of
        None \<Rightarrow> (Inl KeyError, s)
      | Some positions \<Rightarrow>
          (case filter (\<lambda>p. side p = ''SELL'' \<and> \<not> is_hedge p) positions of
             [] \<Rightarrow> (Inr (), s)
           | p # ps \<Rightarrow>
               roll_leg e trade_id (first_max_by (\<lambda>p. \<bar>of_int (strike p) - spt\<bar>) p ps) spt s))"

definition check_expiry_targets :: "config \<Rightarrow> env \<Rightarrow> int \<Rightarrow> state \<Rightarrow> (error + unit) \<times> state" where
  "check_expiry_targets cfg e trade_id s =
     (let premium = (case map_of (trade_premium s) trade_id of None \<Rightarrow> 0 | Some v \<Rightarrow> v)
      in if premium \<le> 0 then (Inr (), s)
         else
           let p = calculate_mtm s (Some trade_id)
           in if premium * EXPIRY_TARGET_PCT cfg \<le> p
              then discard (close_position e trade_id ''TARGET_HIT'' s)
              else if p \<le> - premium * EXPIRY_STOP_MULT cfg
              then discard (close_position e trade_id ''STOP_LOSS'' s)
              else (Inr (), s))"

text \<open>\<^verbatim>\<open>spot or self.fyers.get_spot_price() or self.spot\<close>, then \<^verbatim>\<open>if not spot\<close>.\<close>

definition resolve_spot :: "env \<Rightarrow> real option \<Rightarrow> state \<Rightarrow> real option" where
  "resolve_spot e spot_arg s =
     (case truthy spot_arg of
        Some x \<Rightarrow> Some x
      | None \<Rightarrow> (case truthy (spot_price e) of
                   Some y \<Rightarrow> Some y
                 | None \<Rightarrow> truthy (Some (spot s))))"

definition adjust_positions :: "config \<Rightarrow> env \<Rightarrow> int \<Rightarrow> real option \<Rightarrow> state \<Rightarrow> (error + unit) \<times> state" where
  "adjust_positions cfg e trade_id spot_arg s =
     (case map_of (active_positions s) trade_id of
        None \<Rightarrow> (Inr (), s)
      | Some positions \<Rightarrow>
     (case resolve_spot e spot_arg s of
        None \<Rightarrow> (Inr (), s)
      | Some spt \<Rightarrow>
     (case map_of (entry_spot s) trade_id of
        None \<Rightarrow> (Inl KeyError, s)
      | Some entry_s \<Rightarrow>
     (case map_of (entry_time s) trade_id of
        None \<Rightarrow> (Inl KeyError, s)
      | Some entry_t \<Rightarrow>
     (let adj_count = (case map_of (adjustment_counts s) trade_id of None \<Rightarrow> 0 | Some c \<Rightarrow> c)
      in
     (case map_of (trade_premium s) trade_id of
        None \<Rightarrow> (Inl KeyError, s)
      | Some premium \<Rightarrow>
          let current_pnl = calculate_mtm s (Some trade_id)
          in if entry_s = 0 then (Inl ZeroDivisionError, s)
             else
               let spot_move = \<bar>spt - entry_s\<bar> / entry_s;
                   elapsed_min = (now e - entry_t) / 60
               in if GAMMA_L3_SPOT_MOVE cfg \<le> spot_move \<and> elapsed_min \<le> GAMMA_L3_TIME_WINDOW cfg
                  then
                    discard (close_position e trade_id ''GAMMA_L3''
                      (record_adjustment e trade_id 3 CLOSE_ALL
                         (Move_in_minutes (spot_move * 100) elapsed_min) spt current_pnl s))
                  else
                    (case find (\<lambda>pos. side pos = ''SELL'' \<and> \<not> is_hedge pos
                                  \<and> GAMMA_L2_DELTA_LIMIT cfg < \<bar>delta (greeks pos)\<bar> * 100) positions of
                       Some pos \<Rightarrow>
                         let abs_delta = \<bar>delta (greeks pos)\<bar> * 100;
                             action = Roll_to_new_20_delta (option_type pos) (strike pos);
                             s1 = record_adjustment e trade_id 2 action
                                    (Delta_above_limit abs_delta (GAMMA_L2_DELTA_LIMIT cfg)) spt current_pnl s
                         in (case roll_leg e trade_id pos spt s1 of
                               (Inl err, s2) \<Rightarrow> (Inl err, s2)
                             | (Inr u, s2) \<Rightarrow>
                                 (Inr (),
                                  s2\<lparr>adjustment_counts :=
                                        AList.update trade_id (adj_count + 1) (adjustment_counts s2),
                                      alerts := alerts s2 @ [GAMMA_ADJUSTMENT_LEVEL_2 action abs_delta spt]\<rparr>))
                     | None \<Rightarrow>
                         let premium_change = (if premium \<noteq> 0 then \<bar>current_pnl / premium\<bar> else 0)
                         in if GAMMA_L1_SPOT_MOVE cfg \<le> spot_move
                               \<or> GAMMA_L1_PREMIUM_PCT cfg \<le> premium_change
                            then
                              let trigger = (if GAMMA_L1_SPOT_MOVE cfg \<le> spot_move
                                             then ''spot_move'' else ''premium_+40%'');
                                  action = Roll_untested_leg_closer;
                                  s1 = record_adjustment e trade_id 1 action
                                         (Trigger_with_moves trigger (spot_move * 100) (premium_change * 100))
                                         spt current_pnl s
                              in (case roll_untested_leg e trade_id spt s1 of
                                    (Inl err, s2) \<Rightarrow> (Inl err, s2)
                                  | (Inr u, s2) \<Rightarrow>
                                      (Inr (),
                                       s2\<lparr>adjustment_counts :=
                                             AList.update trade_id (adj_count + 1) (adjustment_counts s2),
                                           alerts := alerts s2 @ [GAMMA_ADJUSTMENT_LEVEL_1 action trigger spt]\<rparr>))
                            else (Inr (), s))))))))"

fun monitor_each :: "config \<Rightarrow> env \<Rightarrow> real \<Rightarrow> int list \<Rightarrow> state \<Rightarrow> (error + unit) \<times> state" where
  "monitor_each cfg e spt [] s = (Inr (), s)"
| "monitor_each cfg e spt (trade_id # rest) s =
     (case update_position_prices e trade_id spt s of
        (Inl err, s1) \<Rightarrow> (Inl err, s1)
      | (Inr u, s1) \<Rightarrow>
     (case adjust_positions cfg e trade_id (Some spt) s1 of
        (Inl err, s2) \<Rightarrow> (Inl err, s2)
      | (Inr u, s2) \<Rightarrow>
     (case check_expiry_targets cfg e trade_id s2 of
        (Inl err, s3) \<Rightarrow> (Inl err, s3)
      | (Inr u, s3) \<Rightarrow> monitor_each cfg e spt rest s3)))"

definition monitor_positions :: "config \<Rightarrow> env \<Rightarrow> state \<Rightarrow> (error + unit) \<times> state" where
  "monitor_positions cfg e s =
     (if active_positions s = [] then (Inr (), s)
      else case truthy (spot_price e) of
             None \<Rightarrow> (Inr (), s)
           | Some spt \<Rightarrow> monitor_each cfg e spt (map fst (active_positions s)) (s\<lparr>spot := spt\<rparr>))"

subsection \<open>Aggregates and the end-of-day summary\<close>

definition get_net_delta :: "state \<Rightarrow> real" where
  "get_net_delta s =
     py_round (foldl (\<lambda>total pos. total + delta_exposure pos) 0 (concat (map snd (active_positions s)))) 4"

definition get_gamma_risk_score :: "state \<Rightarrow> real" where
  "get_gamma_risk_score s =
     (let all_pos = map (\<lambda>p. \<lparr>gp_gamma = Some (gamma (greeks p)), gp_quantity = Some (quantity p),
                               gp_side = Some (side p)\<rparr>)
                      (concat (map snd (active_positions s)))
      in if all_pos = [] then 50
         else compute_gamma_risk_score all_pos (if spot s \<noteq> 0 then spot s else 22000))"

definition generate_eod_summary :: "env \<Rightarrow> state \<Rightarrow> summary_row \<times> state" where
  "generate_eod_summary e s =
     (let trades = get_trades_for_date (today e) (db_trades s);
          closed = filter (\<lambda>t. t_status t = ''CLOSED'') trades;
          wins = filter (\<lambda>t. 0 < t_realized_pnl t) closed;
          total_pnl = sum_list (map t_realized_pnl closed);
          max_dd = (case closed of [] \<Rightarrow> 0 | t # ts \<Rightarrow> fold min (map t_realized_pnl ts) (t_realized_pnl t));
          win_rate = (if closed = [] then 0 else real (length wins) / real (length closed) * 100);
          summary = \<lparr>d_trade_date = today e, d_total_trades = length closed,
                     d_winning_trades = length wins, d_net_pnl = total_pnl, d_max_drawdown = max_dd,
                     d_capital_used = capital s, d_win_rate = win_rate\<rparr>
      in (summary, s\<lparr>db_daily_summary := upsert_daily_summary summary (db_daily_summary s)\<rparr>))"

text \<open>server.py, \<^verbatim>\<open>update_params\<close>: the web front door writes the three parameters it is given.\<close>

definition update_params :: "real option \<Rightarrow> real option \<Rightarrow> int option \<Rightarrow> state \<Rightarrow> state" where
  "update_params cap rp lots s =
     s\<lparr>capital := (case cap of None \<Rightarrow> capital s | Some c \<Rightarrow> c),
       risk_pct := (case rp of None \<Rightarrow> risk_pct s | Some r \<Rightarrow> r),
       num_lots := (case lots of None \<Rightarrow> num_lots s | Some n \<Rightarrow> n)\<rparr>"

section \<open>Notions used in the statements\<close>

text \<open>The state that an effective close of \<open>trade_id\<close> leaves, before the exit alert.\<close>

definition closed_state :: "env \<Rightarrow> int \<Rightarrow> string \<Rightarrow> state \<Rightarrow> state" where
  "closed_state e trade_id reason s =
     s\<lparr>active_positions := AList.delete trade_id (active_positions s),
       entry_spot := AList.delete trade_id (entry_spot s),
       entry_time := AList.delete trade_id (entry_time s),
       adjustment_counts := AList.delete trade_id (adjustment_counts s),
       trade_premium := AList.delete trade_id (trade_premium s),
       daily_pnl := daily_pnl s + calculate_mtm s (Some trade_id),
       db_trades := update_trade trade_id
          (\<lambda>r. r\<lparr>t_status := ''CLOSED'', t_exit_time := Some (now e),
                 t_realized_pnl := calculate_mtm s (Some trade_id), t_unrealized_pnl := 0,
                 t_close_reason := Some reason\<rparr>) (db_trades s)\<rparr>"

text \<open>The key set of a dict.\<close>

definition keys :: "('k \<times> 'v) list \<Rightarrow> 'k set" where
  "keys al = set (map fst al)"

section \<open>Concrete inputs\<close>

definition zero_greeks :: greeks where
  "zero_greeks = \<lparr>delta = 0, gamma = 0, theta = 0, vega = 0, iv = 0.15\<rparr>"

definition short_leg :: position where
  "short_leg = \<lparr>symbol = ''NSE:NIFTY24JUN0622500CE'', strike = 22500, option_type = ''CE'',
     side = ''SELL'', entry_price = 100, current_price = 90, quantity = 65,
     greeks = zero_greeks, is_hedge = False, leg_entry_time = 0\<rparr>"

definition long_leg :: position where
  "long_leg = \<lparr>symbol = ''NSE:NIFTY24JUN0622650CE'', strike = 22650, option_type = ''CE'',
     side = ''BUY'', entry_price = 40, current_price = 30, quantity = 65,
     greeks = zero_greeks, is_hedge = True, leg_entry_time = 0\<rparr>"

definition three_bars :: "bar list" where
  "three_bars =
     [\<lparr>open_px = 22000, high = 22050, low = 21980, close = 22040\<rparr>,
      \<lparr>open_px = 22040, high = 22060, low = 21700, close = 21720\<rparr>,
      \<lparr>open_px = 21720, high = 21800, low = 21650, close = 21790\<rparr>]"

definition short_gamma_leg :: gamma_pos where
  "short_gamma_leg = \<lparr>gp_gamma = Some 0.0002, gp_quantity = Some 65, gp_side = Some ''SELL''\<rparr>"

definition long_gamma_leg :: gamma_pos where
  "long_gamma_leg = \<lparr>gp_gamma = Some 0.0002, gp_quantity = Some 65, gp_side = Some ''BUY''\<rparr>"

definition cfg1 :: config where
  "cfg1 = \<lparr>CE_DELTA_TARGET = 0.22, PE_DELTA_TARGET = - 0.22, GAMMA_L1_SPOT_MOVE = 0.006,
     GAMMA_L1_PREMIUM_PCT = 0.40, GAMMA_L2_DELTA_LIMIT = 35, GAMMA_L3_SPOT_MOVE = 0.012,
     GAMMA_L3_TIME_WINDOW = 45, EXPIRY_OTM_OFFSET = 100, EXPIRY_TARGET_PCT = 0.5,
     EXPIRY_STOP_MULT = 2\<rparr>"

text \<open>Ten minutes after the entry at time 0, at 10:00, the spot quoted at 22300 and every
  option at 100.\<close>

definition env1 :: env where
  "env1 = \<lparr>now = 600, time_of_day = 36000, today = 20000, spot_price = Some 22300,
     option_ltp = (\<lambda>smb. Some 100), expiry = ''24JUN06'', expiry_dt = 400000,
     norm_cdf = (\<lambda>x. 1 / 2)\<rparr>"

definition leg :: "string \<Rightarrow> int \<Rightarrow> string \<Rightarrow> string \<Rightarrow> real \<Rightarrow> bool \<Rightarrow> position" where
  "leg smb strk opt_type sd px hedge =
     \<lparr>symbol = smb, strike = strk, option_type = opt_type, side = sd, entry_price = px,
      current_price = px, quantity = 65, greeks = zero_greeks, is_hedge = hedge,
      leg_entry_time = 0\<rparr>"

definition four_legs :: "position list" where
  "four_legs =
     [leg ''NSE:NIFTY24JUN0622500CE'' 22500 ''CE'' ''SELL'' 100 False,
      leg ''NSE:NIFTY24JUN0621500PE'' 21500 ''PE'' ''SELL'' 90 False,
      leg ''NSE:NIFTY24JUN0622650CE'' 22650 ''CE'' ''BUY'' 40 True,
      leg ''NSE:NIFTY24JUN0621350PE'' 21350 ''PE'' ''BUY'' 30 True]"

definition open_row :: "int \<Rightarrow> trade_row" where
  "open_row i =
     \<lparr>t_id = i, t_trade_date = 20000, t_entry_time = 0, t_exit_time = None,
      t_ce_strike = 22500, t_pe_strike = 21500, t_ce_entry_px = 100, t_pe_entry_px = 90,
      t_ce_current_px = 100, t_pe_current_px = 90, t_ce_hedge_strike = 22650,
      t_pe_hedge_strike = 21350, t_ce_hedge_px = 40, t_pe_hedge_px = 30, t_quantity = 65,
      t_premium_collected = 7800, t_realized_pnl = 0, t_unrealized_pnl = 0, t_status = ''OPEN'',
      t_close_reason = None, t_adjustment_level = 0, t_net_delta = 0, t_gamma_score = 50,
      t_strategy_type = ''GAMMA_STRANGLE''\<rparr>"

text \<open>An engine that is running with a known trend and an empty ledger.\<close>

definition ready_state :: state where
  "ready_state = (init 500000 2 1 20000 [] [] [])\<lparr>is_running := True, supertrend_dir := ''BULLISH''\<rparr>"

text \<open>The same engine last used the day before, when it made one trade.\<close>

definition rollover_state :: state where
  "rollover_state = ready_state\<lparr>cur_trade_date := 19999, trades_today := 1\<rparr>"

text \<open>One and two open structures, entered at spot 22000 at time 0.\<close>

definition one_open_state :: state where
  "one_open_state =
     ready_state\<lparr>active_positions := [(1, four_legs)], entry_spot := [(1, 22000)],
       entry_time := [(1, 0)], adjustment_counts := [(1, 0)], trade_premium := [(1, 7800)],
       spot := 22000, trades_today := 1, db_trades := [open_row 1]\<rparr>"

definition two_open_state :: state where
  "two_open_state =
     ready_state\<lparr>active_positions := [(1, four_legs), (2, four_legs)],
       entry_spot := [(1, 22000), (2, 22000)], entry_time := [(1, 0), (2, 0)],
       adjustment_counts := [(1, 0), (2, 0)], trade_premium := [(1, 7800), (2, 7800)],
       spot := 22000, trades_today := 2, db_trades := [open_row 1, open_row 2]\<rparr>"

text \<open>The running engine with a capital of 1000, whose risk limit of 2 percent is 20.\<close>

definition poor_state :: state where
  "poor_state = ready_state\<lparr>capital := 1000\<rparr>"

text \<open>The open structure after a rise of the calls: the short call quoted at 200 against
  an entry at 100, the long call at 70 against 40.  And the open structure with every option
  decayed to 0, the most that a credit structure can earn.\<close>

definition dearer_legs :: "position list" where
  "dearer_legs =
     [(leg ''NSE:NIFTY24JUN0622500CE'' 22500 ''CE'' ''SELL'' 100 False)\<lparr>current_price := 200\<rparr>,
      leg ''NSE:NIFTY24JUN0621500PE'' 21500 ''PE'' ''SELL'' 90 False,
      (leg ''NSE:NIFTY24JUN0622650CE'' 22650 ''CE'' ''BUY'' 40 True)\<lparr>current_price := 70\<rparr>,
      leg ''NSE:NIFTY24JUN0621350PE'' 21350 ''PE'' ''BUY'' 30 True]"

definition dearer_state :: state where
  "dearer_state = one_open_state\<lparr>active_positions := [(1, dearer_legs)]\<rparr>"

definition decayed_legs :: "position list" where
  "decayed_legs = map (\<lambda>p. p\<lparr>current_price := 0\<rparr>) four_legs"

definition decayed_state :: state where
  "decayed_state = one_open_state\<lparr>active_positions := [(1, decayed_legs)]\<rparr>"

section \<open>Rounding\<close>

lemma rhe_lower: "\<lfloor>x\<rfloor> \<le> round_half_even x"
  by (simp add: round_half_even_def Let_def)

lemma rhe_upper: "round_half_even x \<le> \<lfloor>x\<rfloor> + 1"
  by (simp add: round_half_even_def Let_def)

lemma rhe_of_int: "round_half_even (of_int k) = k"
  by (simp add: round_half_even_def Let_def)

lemma rhe_mono:
  assumes "x \<le> y"
  shows "round_half_even x \<le> round_half_even y"
proof (cases "\<lfloor>x\<rfloor> = \<lfloor>y\<rfloor>")
  case True
  with assms show ?thesis
    by (auto simp: round_half_even_def Let_def)
next
  case False
  with assms have "\<lfloor>x\<rfloor> < \<lfloor>y\<rfloor>"
    using floor_mono [of x y] by linarith
  then have "round_half_even x \<le> \<lfloor>y\<rfloor>"
    using rhe_upper [of x] by linarith
  then show ?thesis
    using rhe_lower [of y] by linarith
qed

lemma py_round_mono: "x \<le> y \<Longrightarrow> py_round x n \<le> py_round y n"
  by (simp add: py_round_def rhe_mono divide_right_mono)

lemma py_round_grid: "py_round (of_int k / 10 ^ n) n = of_int k / 10 ^ n"
  by (simp add: py_round_def rhe_of_int)

lemma py_round_range:
  assumes "of_int a / 10 ^ n \<le> x" "x \<le> of_int b / 10 ^ n"
  shows "of_int a / 10 ^ n \<le> py_round x n \<and> py_round x n \<le> of_int b / 10 ^ n"
  using py_round_mono [OF assms(1), of n] py_round_mono [OF assms(2), of n]
  by (simp only: py_round_grid)

lemma py_round_50: "py_round 50 2 = 50"
  using py_round_grid [of 5000 2] by simp

section \<open>Leg profit and loss\<close>

text \<open>
  C4: the code diverges from the claim.  \<open>pnl\<close> is the formula that the claim quotes, with
  sign(SELL) = -1, and under it the SELL leg entered at 100 and now quoted at 90, 65 units,
  which has gained 650, has a P&L of -650: not the strictly positive P&L of the claim.
\<close>

theorem pnl_short_leg_negative:
  "side short_leg = ''SELL'' \<and> 0 < quantity short_leg
   \<and> current_price short_leg < entry_price short_leg
   \<and> pnl short_leg = - 650 \<and> \<not> 0 < pnl short_leg"
  by (simp add: short_leg_def pnl_def)

section \<open>Option pricing\<close>

text \<open>
  C6: with a time to expiry of zero or less, \<open>black_scholes_greeks\<close> returns delta, gamma,
  theta and vega all zero and the input volatility unchanged in the \<open>iv\<close> field.
\<close>

theorem black_scholes_greeks_expired:
  "T \<le> 0 \<Longrightarrow>
   black_scholes_greeks cdf S K T r sigma opt_type
     = \<lparr>delta = 0, gamma = 0, theta = 0, vega = 0, iv = sigma\<rparr>"
  by (simp add: black_scholes_greeks_def)

theorem black_scholes_greeks_expired_witness:
  "(0 :: real) \<le> 0 \<and>
   black_scholes_greeks (\<lambda>x. 1 / 2) 22000 22500 0 0.065 0.31 ''PE''
     = \<lparr>delta = 0, gamma = 0, theta = 0, vega = 0, iv = 0.31\<rparr>"
  using black_scholes_greeks_expired [of 0 "\<lambda>x. 1 / 2" 22000 22500 "0.065" "0.31" "''PE''"]
  by simp

lemma clamp_shape:
  fixes sigma x :: real
  assumes "1 / 100 \<le> sigma" "sigma \<le> 5"
  shows "1 / 100 \<le> fst (if c1 then (sigma, True) else if c2 then (sigma, True) else (max 0.01 (min x 5.0), b))
     \<and> fst (if c1 then (sigma, True) else if c2 then (sigma, True) else (max 0.01 (min x 5.0), b)) \<le> 5"
  using assms by (cases c1; cases c2; simp; linarith)

lemma iv_step_range:
  assumes "1 / 100 \<le> sigma" "sigma \<le> 5"
  shows "1 / 100 \<le> fst (iv_step cdf mp S K T ot r sigma) \<and> fst (iv_step cdf mp S K T ot r sigma) \<le> 5"
  unfolding iv_step_def Let_def by (rule clamp_shape [OF assms])

lemma iv_loop_range:
  "1 / 100 \<le> sigma \<Longrightarrow> sigma \<le> 5 \<Longrightarrow>
   1 / 100 \<le> fst (iv_loop cdf mp S K T ot r n sigma) \<and> fst (iv_loop cdf mp S K T ot r n sigma) \<le> 5"
proof (induction n arbitrary: sigma)
  case 0
  then show ?case by simp
next
  case (Suc n)
  obtain s' stop where st: "iv_step cdf mp S K T ot r sigma = (s', stop)"
    by (cases "iv_step cdf mp S K T ot r sigma")
  with iv_step_range [OF Suc.prems, of cdf mp S K T ot r] have r: "1 / 100 \<le> s'" "s' \<le> 5"
    by simp_all
  obtain s2 k where lp: "iv_loop cdf mp S K T ot r n s' = (s2, k)"
    by (cases "iv_loop cdf mp S K T ot r n s'")
  show ?case using Suc.IH [OF r] r st lp by simp
qed

lemma iv_loop_count: "snd (iv_loop cdf mp S K T ot r n sigma) \<le> n"
proof (induction n arbitrary: sigma)
  case 0
  then show ?case by simp
next
  case (Suc n)
  obtain s' stop where st: "iv_step cdf mp S K T ot r sigma = (s', stop)"
    by (cases "iv_step cdf mp S K T ot r sigma")
  obtain s2 k where lp: "iv_loop cdf mp S K T ot r n s' = (s2, k)"
    by (cases "iv_loop cdf mp S K T ot r n s'")
  show ?case using Suc.IH [of s'] st lp by simp
qed

text \<open>
  C7: for every input, \<open>estimate_iv_from_price\<close> makes at most 100 passes of the Newton
  loop and returns a value between 0.01 and 5.0, whichever way the loop is left.
\<close>

theorem estimate_iv_bounded:
  "snd (estimate_iv_run cdf mp S K T ot r) \<le> 100
   \<and> 0.01 \<le> estimate_iv_from_price cdf mp S K T ot r
   \<and> estimate_iv_from_price cdf mp S K T ot r \<le> 5.0"
proof (cases "T \<le> 0 \<or> mp \<le> 0")
  case True
  then show ?thesis by (simp add: estimate_iv_from_price_def estimate_iv_run_def)
next
  case False
  obtain s k where lp: "iv_loop cdf mp S K T ot r 100 0.20 = (s, k)"
    by (cases "iv_loop cdf mp S K T ot r 100 0.20")
  have "1 / 100 \<le> s \<and> s \<le> 5"
    using iv_loop_range [of "0.20" cdf mp S K T ot r 100] lp by simp
  then have "of_int 100 / 10 ^ 4 \<le> s" "s \<le> of_int 50000 / 10 ^ 4" by simp_all
  from py_round_range [OF this] have "1 / 100 \<le> py_round s 4 \<and> py_round s 4 \<le> 5" by simp
  moreover have "k \<le> 100"
    using iv_loop_count [of cdf mp S K T ot r 100 "0.20"] lp by simp
  ultimately show ?thesis
    using False lp by (simp add: estimate_iv_from_price_def estimate_iv_run_def)
qed

theorem estimate_iv_bounded_witness:
  "snd (estimate_iv_run (\<lambda>x. 1 / 2) 120 22000 0 (7 / 365) ''CE'' 0.065) \<le> 100
   \<and> 0.01 \<le> estimate_iv_from_price (\<lambda>x. 1 / 2) 120 22000 0 (7 / 365) ''CE'' 0.065
   \<and> estimate_iv_from_price (\<lambda>x. 1 / 2) 120 22000 0 (7 / 365) ''CE'' 0.065 \<le> 5.0"
  using estimate_iv_bounded [of "\<lambda>x. 1 / 2" 120 22000 0 "7 / 365" "''CE''" "0.065"]
  by simp

section \<open>Gamma risk score\<close>

lemma total_gamma_exposure_sum:
  "total_gamma_exposure positions spt = (\<Sum>pos\<leftarrow>positions. gamma_term spt pos)"
proof -
  have "foldl (\<lambda>total pos. total + gamma_term spt pos) a positions
        = a + (\<Sum>pos\<leftarrow>positions. gamma_term spt pos)" for a
    by (induction positions arbitrary: a) simp_all
  then show ?thesis by (simp add: total_gamma_exposure_def)
qed

text \<open>
  C8: the gamma risk score lies in [0, 100], is exactly 50 when the signed aggregate
  gamma exposure is 0, and does not decrease when that exposure increases.
\<close>

theorem gamma_risk_score_properties:
  "0 \<le> compute_gamma_risk_score ps1 s1 \<and> compute_gamma_risk_score ps1 s1 \<le> 100
   \<and> (total_gamma_exposure ps1 s1 = 0 \<longrightarrow> compute_gamma_risk_score ps1 s1 = 50)
   \<and> (total_gamma_exposure ps1 s1 \<le> total_gamma_exposure ps2 s2
        \<longrightarrow> compute_gamma_risk_score ps1 s1 \<le> compute_gamma_risk_score ps2 s2)"
proof -
  define c where "c = max (- 50000) (min 50000 (total_gamma_exposure ps1 s1))"
  have "of_int 0 / 10 ^ 2 \<le> 50 + (c / 50000) * 50" "50 + (c / 50000) * 50 \<le> of_int 10000 / 10 ^ 2"
    by (simp_all add: c_def)
  from py_round_range [OF this]
  have range: "0 \<le> compute_gamma_risk_score ps1 s1 \<and> compute_gamma_risk_score ps1 s1 \<le> 100"
    by (simp add: compute_gamma_risk_score_def Let_def c_def)
  have neutral: "compute_gamma_risk_score ps1 s1 = 50" if "total_gamma_exposure ps1 s1 = 0"
    using that by (simp add: compute_gamma_risk_score_def Let_def py_round_50)
  have mono: "compute_gamma_risk_score ps1 s1 \<le> compute_gamma_risk_score ps2 s2"
    if le: "total_gamma_exposure ps1 s1 \<le> total_gamma_exposure ps2 s2"
  proof -
    have "max (- 50000) (min 50000 (total_gamma_exposure ps1 s1))
        \<le> max (- 50000) (min 50000 (total_gamma_exposure ps2 s2))"
      using le by linarith
    then show ?thesis
      unfolding compute_gamma_risk_score_def Let_def
      by (intro py_round_mono) (simp add: divide_right_mono)
  qed
  from range neutral mono show ?thesis by blast
qed

theorem gamma_risk_score_properties_witness:
  "total_gamma_exposure [short_gamma_leg, long_gamma_leg] 22000 = 0
   \<and> compute_gamma_risk_score [short_gamma_leg, long_gamma_leg] 22000 = 50
   \<and> total_gamma_exposure [short_gamma_leg, long_gamma_leg] 22000
       \<le> total_gamma_exposure [long_gamma_leg] 22000
   \<and> compute_gamma_risk_score [short_gamma_leg, long_gamma_leg] 22000
       \<le> compute_gamma_risk_score [long_gamma_leg] 22000
   \<and> compute_gamma_risk_score [long_gamma_leg] 22000 \<le> 100"
  using gamma_risk_score_properties
          [of "[short_gamma_leg, long_gamma_leg]" 22000 "[long_gamma_leg]" 22000]
        gamma_risk_score_properties [of "[long_gamma_leg]" 22000 "[]" 0]
  by (simp add: total_gamma_exposure_def gamma_term_def short_gamma_leg_def long_gamma_leg_def)

section \<open>Supertrend\<close>

lemma st_branch_shape:
  "\<exists>d sv. (d = 1 \<or> d = - 1) \<and>
     (if c then (if a then st\<lparr>direction := D[i := Some (- 1)], supertrend := S[i := u]\<rparr>
                 else st\<lparr>direction := D[i := Some 1], supertrend := S[i := l]\<rparr>)
      else (if b then st\<lparr>direction := D[i := Some 1], supertrend := S[i := l]\<rparr>
            else st\<lparr>direction := D[i := Some (- 1)], supertrend := S[i := u]\<rparr>))
     = st\<lparr>direction := D[i := Some (d :: int)], supertrend := S[i := sv]\<rparr>"
  by (cases c; cases a; cases b; simp; blast)

lemma st_step_shape:
  "\<exists>d sv. (d = 1 \<or> d = - 1) \<and>
     st_step df ub lb i st
       = st\<lparr>direction := (direction st)[i := Some d], supertrend := (supertrend st)[i := sv]\<rparr>"
  unfolding st_step_def Let_def by (rule st_branch_shape)

lemma st_fold_directions:
  assumes "length (direction st0) = n"
  shows "k \<le> n \<Longrightarrow>
    length (direction (fold (st_step df ub lb) [1..<k] st0)) = n \<and>
    (\<forall>i. 1 \<le> i \<and> i < k \<longrightarrow>
       direction (fold (st_step df ub lb) [1..<k] st0) ! i = Some 1 \<or>
       direction (fold (st_step df ub lb) [1..<k] st0) ! i = Some (- 1))"
proof (induction k)
  case 0
  then show ?case using assms by simp
next
  case (Suc k)
  show ?case
  proof (cases "k = 0")
    case True
    then show ?thesis using assms by simp
  next
    case False
    define st where "st = fold (st_step df ub lb) [1..<k] st0"
    have ih: "length (direction st) = n"
      "\<forall>i. 1 \<le> i \<and> i < k \<longrightarrow> direction st ! i = Some 1 \<or> direction st ! i = Some (- 1)"
      using Suc by (simp_all add: st_def)
    have unf: "fold (st_step df ub lb) [1..<Suc k] st0 = st_step df ub lb k st"
      using False by (simp add: st_def)
    obtain d sv where d: "d = 1 \<or> d = - 1"
      and stp: "st_step df ub lb k st
        = st\<lparr>direction := (direction st)[k := Some d], supertrend := (supertrend st)[k := sv]\<rparr>"
      using st_step_shape [of df ub lb k st] by blast
    have k: "k < n" using Suc.prems by simp
    show ?thesis
      unfolding unf stp using ih d k
      by (auto simp: nth_list_update less_Suc_eq)
  qed
qed

text \<open>
  C9: for a bar sequence of length at least 2 (and a smoothing period that pandas accepts),
  \<open>compute_supertrend\<close> returns a frame in which every bar after the first has the
  direction BULLISH or BEARISH.
\<close>

theorem supertrend_direction_defined:
  assumes "1 \<le> period" and "2 \<le> length df"
  shows "\<exists>fr. compute_supertrend df period m = Inr fr
     \<and> length (st_direction fr) = length df
     \<and> (\<forall>i. 1 \<le> i \<and> i < length df \<longrightarrow>
          st_direction fr ! i = Some ''BULLISH'' \<or> st_direction fr ! i = Some ''BEARISH'')"
proof -
  let ?n = "length df"
  let ?st0 = "\<lparr>supertrend = replicate ?n None, direction = replicate ?n (None :: int option)\<rparr>"
  have l0: "length (direction ?st0) = ?n" by simp
  note inv = st_fold_directions [OF l0, of ?n, simplified]
  show ?thesis
    using assms(1) inv
    apply (simp add: compute_supertrend_def Let_def)
    apply (auto simp: direction_name_def)
    done
qed

theorem supertrend_direction_defined_witness:
  "(1 :: int) \<le> 10 \<and> 2 \<le> length three_bars
   \<and> (\<exists>fr. compute_supertrend three_bars 10 3 = Inr fr
        \<and> length (st_direction fr) = 3
        \<and> (st_direction fr ! 1 = Some ''BULLISH'' \<or> st_direction fr ! 1 = Some ''BEARISH'')
        \<and> (st_direction fr ! 2 = Some ''BULLISH'' \<or> st_direction fr ! 2 = Some ''BEARISH''))"
proof -
  have len: "length three_bars = 3" by (simp add: three_bars_def)
  have h1: "(1 :: int) \<le> 10" by simp
  have h2: "2 \<le> length three_bars" by (simp add: len)
  from supertrend_direction_defined [OF h1 h2, of 3] len h1 h2
  show ?thesis by (auto simp: len)
qed

section \<open>Closing a structure\<close>

lemma close_position_absent:
  "map_of (active_positions s) trade_id = None \<Longrightarrow> close_position e trade_id reason s = (Inr 0, s)"
  by (simp add: close_position_def)

lemma close_position_present:
  assumes "map_of (active_positions s) trade_id \<noteq> None" "\<not> lock_held s"
  shows "close_position e trade_id reason s =
     (if capital s = 0 then (Inl ZeroDivisionError, closed_state e trade_id reason s)
      else (Inr (calculate_mtm s (Some trade_id)),
            (closed_state e trade_id reason s)\<lparr>alerts := alerts s @
               [EXIT trade_id (calculate_mtm s (Some trade_id))
                  (calculate_mtm s (Some trade_id) / capital s * 100) reason]\<rparr>))"
proof -
  obtain ps where "map_of (active_positions s) trade_id = Some ps" using assms(1) by blast
  then show ?thesis
    using assms(2) by (simp add: close_position_def with_lock_def Let_def closed_state_def)
qed

lemma close_position_blocked:
  assumes "map_of (active_positions s) trade_id \<noteq> None" "lock_held s"
  shows "close_position e trade_id reason s = (Inl Deadlock, s)"
proof -
  obtain ps where "map_of (active_positions s) trade_id = Some ps" using assms(1) by blast
  then show ?thesis
    using assms(2) by (simp add: close_position_def with_lock_def Let_def)
qed

lemma map_of_None_keys: "map_of al k = None \<longleftrightarrow> k \<notin> keys al"
  by (simp add: keys_def map_of_eq_None_iff)

lemma keys_delete: "keys (AList.delete k al) = keys al - {k}"
  by (auto simp: keys_def delete_keys)

lemma keys_update: "keys (AList.update k v al) = insert k (keys al)"
  by (auto simp: keys_def update_keys)

lemma keys_Nil: "keys [] = {}"
  by (simp add: keys_def)

lemma close_position_closed:
  assumes "\<not> lock_held s"
  shows "map_of (active_positions (snd (close_position e trade_id reason s))) trade_id = None"
proof (cases "map_of (active_positions s) trade_id = None")
  case True
  then show ?thesis by (simp add: close_position_absent)
next
  case False
  from close_position_present [OF False assms, of e reason]
  show ?thesis by (simp add: closed_state_def delete_conv' split: if_splits)
qed

lemma reset_day_blocks:
  assumes "active_positions s \<noteq> []" "\<not> lock_held s"
  shows "reset_day e s = (Inl Deadlock, s\<lparr>lock_held := True\<rparr>)"
proof -
  obtain k v rest where ap: "active_positions s = (k, v) # rest"
    using assms(1) by (cases "active_positions s") auto
  have "close_position e k ''DAY_RESET'' (s\<lparr>lock_held := True\<rparr>) = (Inl Deadlock, s\<lparr>lock_held := True\<rparr>)"
    by (rule close_position_blocked) (simp_all add: ap)
  then show ?thesis
    using assms(2) by (simp add: reset_day_def with_lock_def ap force_close_trade_def discard_def)
qed

lemma reset_day_empty:
  assumes "active_positions s = []" "\<not> lock_held s"
  shows "reset_day e s =
     (Inr (), s\<lparr>active_positions := [], entry_spot := [], entry_time := [],
                adjustment_counts := [], trade_premium := [],
                trades_today := 0, daily_pnl := 0, cur_trade_date := today e\<rparr>)"
  using assms by (simp add: reset_day_def with_lock_def)

lemma reset_day_held: "lock_held s \<Longrightarrow> reset_day e s = (Inl Deadlock, s)"
  by (simp add: reset_day_def with_lock_def)

section \<open>Discarded results, the entry gate and adjustment records\<close>

lemma discard_snd: "snd (discard res) = snd res"
  by (cases res) (simp add: discard_def split: sum.splits)

lemma discard_fst_Inr: "fst (discard res) = Inr u \<longleftrightarrow> (\<exists>v. fst res = Inr v)"
  by (cases res) (auto simp: discard_def split: sum.splits)

lemma check_entry_state:
  "snd (check_entry e s) = s \<or>
   snd (check_entry e s)
     = s\<lparr>trades_today := get_trade_count_today (today e) (db_trades s), cur_trade_date := today e\<rparr>"
  by (simp add: check_entry_def Let_def)

lemma check_entry_today: "cur_trade_date s = today e \<Longrightarrow> snd (check_entry e s) = s"
  by (simp add: check_entry_def Let_def)

lemma record_adjustment_fields:
  "active_positions (record_adjustment e trade_id level action reason spt p s) = active_positions s"
  "entry_spot (record_adjustment e trade_id level action reason spt p s) = entry_spot s"
  "entry_time (record_adjustment e trade_id level action reason spt p s) = entry_time s"
  "adjustment_counts (record_adjustment e trade_id level action reason spt p s) = adjustment_counts s"
  "trade_premium (record_adjustment e trade_id level action reason spt p s) = trade_premium s"
  "lock_held (record_adjustment e trade_id level action reason spt p s) = lock_held s"
  "capital (record_adjustment e trade_id level action reason spt p s) = capital s"
  "alerts (record_adjustment e trade_id level action reason spt p s) = alerts s"
  "daily_pnl (record_adjustment e trade_id level action reason spt p s) = daily_pnl s"
  by (simp_all add: record_adjustment_def)

lemma record_adjustment_store:
  "db_adjustments (record_adjustment e trade_id level action reason spt p s)
     = db_adjustments s @
         [\<lparr>a_trade_id = trade_id, a_adj_time = now e, a_level = level, a_action = action,
           a_reason = reason, a_spot_at_adj = spt, a_pnl_at_adj = p\<rparr>]"
  "db_trades (record_adjustment e trade_id level action reason spt p s)
     = update_trade trade_id (\<lambda>r. r\<lparr>t_adjustment_level := level\<rparr>) (db_trades s)"
  by (simp_all add: record_adjustment_def)

lemma keys_update_present: "map_of al k = Some v \<Longrightarrow> keys (AList.update k w al) = keys al"
proof -
  assume "map_of al k = Some v"
  then have "k \<in> keys al"
    using map_of_None_keys [of al k] by auto
  then show ?thesis by (auto simp: keys_update)
qed

section \<open>Opening a structure\<close>

lemma open_position_success:
  assumes "open_position cfg e st s = (Inr (Some tid), s')"
  shows "\<exists>spt prices.
     fst (check_entry e s) \<and> truthy (spot_price e) = Some spt
     \<and> fetch_ltps e spt (time_to_expiry e) (select_strikes cfg e st spt (time_to_expiry e)) = Inr prices
     \<and> \<not> lock_held s
     \<and> tid = next_trade_id (db_trades s)
     \<and> active_positions s' = AList.update tid
          (build_positions e spt (time_to_expiry e) (NIFTY_LOT_SIZE * num_lots s)
             (select_strikes cfg e st spt (time_to_expiry e)) prices) (active_positions s)
     \<and> entry_spot s' = AList.update tid spt (entry_spot s)
     \<and> entry_time s' = AList.update tid (now e) (entry_time s)
     \<and> adjustment_counts s' = AList.update tid 0 (adjustment_counts s)
     \<and> trade_premium s' = AList.update tid
          ((fst prices + fst (snd prices) - fst (snd (snd prices)) - snd (snd (snd prices)))
             * of_int (NIFTY_LOT_SIZE * num_lots s)) (trade_premium s)
     \<and> trades_today s' = trades_today (snd (check_entry e s)) + 1"
proof -
  obtain b s1 where ce: "check_entry e s = (b, s1)" by (cases "check_entry e s")
  from check_entry_state [of e s] ce
  have s1: "s1 = s \<or> s1 = s\<lparr>trades_today := get_trade_count_today (today e) (db_trades s),
                               cur_trade_date := today e\<rparr>"
    by simp
  show ?thesis
    using assms ce s1
    unfolding open_position_def Let_def with_lock_def
    by (auto split: bool.splits option.splits sum.splits prod.splits if_splits)
qed

lemma open_position_failure:
  assumes "open_position cfg e st s = (r, s')" and "\<forall>tid. r \<noteq> Inr (Some tid)"
  shows "active_positions s' = active_positions s \<and> entry_spot s' = entry_spot s
     \<and> entry_time s' = entry_time s \<and> adjustment_counts s' = adjustment_counts s
     \<and> trade_premium s' = trade_premium s"
proof -
  obtain b s1 where ce: "check_entry e s = (b, s1)" by (cases "check_entry e s")
  from check_entry_state [of e s] ce
  have s1: "s1 = s \<or> s1 = s\<lparr>trades_today := get_trade_count_today (today e) (db_trades s),
                               cur_trade_date := today e\<rparr>"
    by simp
  show ?thesis
    using assms ce s1
    unfolding open_position_def Let_def with_lock_def
    by (auto split: bool.splits option.splits sum.splits prod.splits if_splits)
qed

section \<open>The gamma defence, level 3\<close>

lemma adjust_positions_level3:
  assumes "map_of (active_positions s) trade_id = Some positions"
    and "resolve_spot e spot_arg s = Some spt"
    and "map_of (entry_spot s) trade_id = Some entry_s"
    and "map_of (entry_time s) trade_id = Some entry_t"
    and "map_of (trade_premium s) trade_id = Some premium"
    and "entry_s \<noteq> 0"
    and "GAMMA_L3_SPOT_MOVE cfg \<le> \<bar>spt - entry_s\<bar> / entry_s"
    and "(now e - entry_t) / 60 \<le> GAMMA_L3_TIME_WINDOW cfg"
  shows "adjust_positions cfg e trade_id spot_arg s =
     discard (close_position e trade_id ''GAMMA_L3''
       (record_adjustment e trade_id 3 CLOSE_ALL
          (Move_in_minutes (\<bar>spt - entry_s\<bar> / entry_s * 100) ((now e - entry_t) / 60))
          spt (calculate_mtm s (Some trade_id)) s))"
  using assms by (simp add: adjust_positions_def Let_def)

lemma calculate_mtm_record_adjustment:
  "calculate_mtm (record_adjustment e trade_id level action reason spt p s) t = calculate_mtm s t"
  by (cases t) (simp_all add: calculate_mtm_def record_adjustment_fields)

lemma adjust_positions_level3_state:
  assumes "map_of (active_positions s) trade_id = Some positions"
    and "resolve_spot e spot_arg s = Some spt"
    and "map_of (entry_spot s) trade_id = Some entry_s"
    and "map_of (entry_time s) trade_id = Some entry_t"
    and "map_of (trade_premium s) trade_id = Some premium"
    and "entry_s \<noteq> 0"
    and "GAMMA_L3_SPOT_MOVE cfg \<le> \<bar>spt - entry_s\<bar> / entry_s"
    and "(now e - entry_t) / 60 \<le> GAMMA_L3_TIME_WINDOW cfg"
    and "\<not> lock_held s"
  shows "snd (adjust_positions cfg e trade_id spot_arg s) =
     (closed_state e trade_id ''GAMMA_L3''
        (record_adjustment e trade_id 3 CLOSE_ALL
           (Move_in_minutes (\<bar>spt - entry_s\<bar> / entry_s * 100) ((now e - entry_t) / 60))
           spt (calculate_mtm s (Some trade_id)) s))
       \<lparr>alerts := (if capital s = 0 then alerts s
                   else alerts s @ [EXIT trade_id (calculate_mtm s (Some trade_id))
                          (calculate_mtm s (Some trade_id) / capital s * 100) ''GAMMA_L3''])\<rparr>"
proof -
  let ?s1 = "record_adjustment e trade_id 3 CLOSE_ALL
           (Move_in_minutes (\<bar>spt - entry_s\<bar> / entry_s * 100) ((now e - entry_t) / 60))
           spt (calculate_mtm s (Some trade_id)) s"
  have p: "map_of (active_positions ?s1) trade_id \<noteq> None" "\<not> lock_held ?s1"
    using assms(1,9) by (simp_all add: record_adjustment_fields)
  have al: "alerts (closed_state e trade_id ''GAMMA_L3'' ?s1) = alerts s"
    by (simp add: closed_state_def record_adjustment_fields)
  show ?thesis
    unfolding adjust_positions_level3 [OF assms(1-8)] discard_snd
      close_position_present [OF p]
    using al
    by (simp add: record_adjustment_fields calculate_mtm_record_adjustment)
qed

lemma update_trade_set:
  "r' \<in> set (update_trade trade_id f rows) \<Longrightarrow>
   (\<exists>r \<in> set rows. (if t_id r = trade_id then r' = f r else r' = r))"
  by (auto simp: update_trade_def)

section \<open>The concrete states\<close>

lemma ready_state_fields:
  "capital ready_state = 500000" "risk_pct ready_state = 2" "num_lots ready_state = 1"
  "is_running ready_state" "\<not> lock_held ready_state" "active_positions ready_state = []"
  "entry_spot ready_state = []" "entry_time ready_state = []" "adjustment_counts ready_state = []"
  "trade_premium ready_state = []" "supertrend_dir ready_state = ''BULLISH''"
  "cur_trade_date ready_state = 20000" "trades_today ready_state = 0" "daily_pnl ready_state = 0"
  "db_trades ready_state = []" "db_adjustments ready_state = []" "alerts ready_state = []"
  by (simp_all add: ready_state_def init_def)

lemma one_open_state_fields:
  "capital one_open_state = 500000" "\<not> lock_held one_open_state"
  "active_positions one_open_state = [(1, four_legs)]" "entry_spot one_open_state = [(1, 22000)]"
  "entry_time one_open_state = [(1, 0)]" "adjustment_counts one_open_state = [(1, 0)]"
  "trade_premium one_open_state = [(1, 7800)]" "spot one_open_state = 22000"
  "daily_pnl one_open_state = 0" "db_trades one_open_state = [open_row 1]"
  "db_adjustments one_open_state = []" "alerts one_open_state = []"
  by (simp_all add: one_open_state_def ready_state_fields)

lemma two_open_state_fields:
  "\<not> lock_held two_open_state"
  "active_positions two_open_state = [(1, four_legs), (2, four_legs)]"
  "entry_spot two_open_state = [(1, 22000), (2, 22000)]"
  "entry_time two_open_state = [(1, 0), (2, 0)]"
  "adjustment_counts two_open_state = [(1, 0), (2, 0)]"
  "trade_premium two_open_state = [(1, 7800), (2, 7800)]"
  "trades_today two_open_state = 2" "daily_pnl two_open_state = 0"
  "db_trades two_open_state = [open_row 1, open_row 2]"
  by (simp_all add: two_open_state_def ready_state_fields)

lemma rollover_state_fields:
  "capital rollover_state = 500000" "risk_pct rollover_state = 2" "num_lots rollover_state = 1"
  "is_running rollover_state" "\<not> lock_held rollover_state"
  "supertrend_dir rollover_state = ''BULLISH''"
  "cur_trade_date rollover_state = 19999" "trades_today rollover_state = 1"
  "daily_pnl rollover_state = 0" "db_trades rollover_state = []"
  by (simp_all add: rollover_state_def ready_state_fields)

lemma env1_fields:
  "now env1 = 600" "time_of_day env1 = 36000" "today env1 = 20000" "spot_price env1 = Some 22300"
  "option_ltp env1 = (\<lambda>smb. Some 100)"
  by (simp_all add: env1_def)

lemma four_legs_mtm: "sum_list (map pnl four_legs) = 0"
  by (simp add: four_legs_def leg_def pnl_def)

lemma one_open_mtm: "calculate_mtm one_open_state (Some 1) = 0"
  by (simp add: calculate_mtm_def one_open_state_fields four_legs_mtm)

lemma fetch_ltps_env1: "fetch_ltps env1 spt T (a, b, c, d) = Inr (100, 100, 100, 100)"
  by (simp add: fetch_ltps_def get_simulated_ltp_def truthy_def env1_fields)

lemma check_entry_ready: "check_entry env1 ready_state = (True, ready_state)"
  by (simp add: check_entry_def Let_def ready_state_fields env1_fields MAX_TRADES_PER_DAY_def
        get_open_trades_def)

lemma check_entry_rollover:
  "check_entry env1 rollover_state = (True, rollover_state\<lparr>trades_today := 0, cur_trade_date := 20000\<rparr>)"
  by (simp add: check_entry_def Let_def rollover_state_fields env1_fields MAX_TRADES_PER_DAY_def
        get_open_trades_def get_trade_count_today_def)

lemma open_position_ready: "fst (open_position cfg1 env1 ''EXPIRY'' ready_state) = Inr (Some 1)"
  by (simp add: open_position_def check_entry_ready truthy_def env1_fields Let_def
        select_strikes_def fetch_ltps_env1 ready_state_fields NIFTY_LOT_SIZE_def
        with_lock_def next_trade_id_def)

lemma open_position_rollover:
  "fst (open_position cfg1 env1 ''EXPIRY'' rollover_state) = Inr (Some 1)
   \<and> trades_today (snd (open_position cfg1 env1 ''EXPIRY'' rollover_state)) = 1"
  by (simp add: open_position_def check_entry_rollover truthy_def env1_fields Let_def
        select_strikes_def fetch_ltps_env1 rollover_state_fields NIFTY_LOT_SIZE_def
        with_lock_def next_trade_id_def)

section \<open>Claims about the strategy engine\<close>

text \<open>
  C1, as stated, fails on the close reason.  With the entry at spot 22000, the spot at
  22300 ten minutes later and a level-3 threshold of 1.2 percent within 45 minutes, the
  level-3 condition holds, and the structure is closed with the reason GAMMA_L3, not L3.
\<close>

theorem gamma_level3_reason_counterexample:
  "GAMMA_L3_SPOT_MOVE cfg1 \<le> \<bar>22300 - 22000\<bar> / 22000
   \<and> (now env1 - 0) / 60 \<le> GAMMA_L3_TIME_WINDOW cfg1
   \<and> map t_close_reason (db_trades (snd (adjust_positions cfg1 env1 1 (Some 22300) one_open_state)))
       = [Some ''GAMMA_L3'']
   \<and> Some ''GAMMA_L3'' \<noteq> Some ''L3''"
proof -
  have h: "map_of (active_positions one_open_state) 1 = Some four_legs"
    "resolve_spot env1 (Some 22300) one_open_state = Some 22300"
    "map_of (entry_spot one_open_state) 1 = Some 22000"
    "map_of (entry_time one_open_state) 1 = Some 0"
    "map_of (trade_premium one_open_state) 1 = Some 7800"
    "(22000 :: real) \<noteq> 0"
    "GAMMA_L3_SPOT_MOVE cfg1 \<le> \<bar>22300 - 22000\<bar> / 22000"
    "(now env1 - 0) / 60 \<le> GAMMA_L3_TIME_WINDOW cfg1"
    "\<not> lock_held one_open_state"
    by (simp_all add: one_open_state_fields resolve_spot_def truthy_def cfg1_def env1_fields)
  show ?thesis
    using h(7,8) adjust_positions_level3_state [OF h]
    by (simp add: closed_state_def record_adjustment_store one_open_state_fields update_trade_def
          open_row_def)
qed

text \<open>
  C1, amended: for an open structure evaluated by the gamma defence with the lock free, if
  the level-3 condition holds then exactly one adjustment record is inserted, of level 3; the
  whole structure is closed, with the reason GAMMA_L3; and nothing of level 1 or 2 happens in
  the same call: no further record, no leg rolled, no adjustment counted, no adjustment alert.
\<close>

theorem gamma_level3_acts_alone:
  assumes "map_of (active_positions s) trade_id = Some positions"
    and "resolve_spot e spot_arg s = Some spt"
    and "map_of (entry_spot s) trade_id = Some entry_s"
    and "map_of (entry_time s) trade_id = Some entry_t"
    and "map_of (trade_premium s) trade_id = Some premium"
    and "entry_s \<noteq> 0"
    and "GAMMA_L3_SPOT_MOVE cfg \<le> \<bar>spt - entry_s\<bar> / entry_s"
    and "(now e - entry_t) / 60 \<le> GAMMA_L3_TIME_WINDOW cfg"
    and "\<not> lock_held s"
  shows "db_adjustments (snd (adjust_positions cfg e trade_id spot_arg s))
       = db_adjustments s @
           [\<lparr>a_trade_id = trade_id, a_adj_time = now e, a_level = 3, a_action = CLOSE_ALL,
             a_reason = Move_in_minutes (\<bar>spt - entry_s\<bar> / entry_s * 100) ((now e - entry_t) / 60),
             a_spot_at_adj = spt, a_pnl_at_adj = calculate_mtm s (Some trade_id)\<rparr>]
     \<and> active_positions (snd (adjust_positions cfg e trade_id spot_arg s))
         = AList.delete trade_id (active_positions s)
     \<and> entry_spot (snd (adjust_positions cfg e trade_id spot_arg s))
         = AList.delete trade_id (entry_spot s)
     \<and> entry_time (snd (adjust_positions cfg e trade_id spot_arg s))
         = AList.delete trade_id (entry_time s)
     \<and> adjustment_counts (snd (adjust_positions cfg e trade_id spot_arg s))
         = AList.delete trade_id (adjustment_counts s)
     \<and> trade_premium (snd (adjust_positions cfg e trade_id spot_arg s))
         = AList.delete trade_id (trade_premium s)
     \<and> trade_id \<notin> keys (active_positions (snd (adjust_positions cfg e trade_id spot_arg s)))
     \<and> db_trades (snd (adjust_positions cfg e trade_id spot_arg s))
         = update_trade trade_id
             (\<lambda>r. r\<lparr>t_status := ''CLOSED'', t_exit_time := Some (now e),
                    t_realized_pnl := calculate_mtm s (Some trade_id), t_unrealized_pnl := 0,
                    t_close_reason := Some ''GAMMA_L3''\<rparr>)
             (update_trade trade_id (\<lambda>r. r\<lparr>t_adjustment_level := 3\<rparr>) (db_trades s))
     \<and> daily_pnl (snd (adjust_positions cfg e trade_id spot_arg s))
         = daily_pnl s + calculate_mtm s (Some trade_id)
     \<and> alerts (snd (adjust_positions cfg e trade_id spot_arg s))
         = (if capital s = 0 then alerts s
            else alerts s @ [EXIT trade_id (calculate_mtm s (Some trade_id))
                   (calculate_mtm s (Some trade_id) / capital s * 100) ''GAMMA_L3''])"
  unfolding adjust_positions_level3_state [OF assms]
  by (simp add: closed_state_def record_adjustment_fields record_adjustment_store
        calculate_mtm_record_adjustment keys_delete)

theorem gamma_level3_acts_alone_witness:
  "map_of (active_positions one_open_state) 1 = Some four_legs
   \<and> resolve_spot env1 (Some 22300) one_open_state = Some 22300
   \<and> map_of (entry_spot one_open_state) 1 = Some 22000
   \<and> map_of (entry_time one_open_state) 1 = Some 0
   \<and> map_of (trade_premium one_open_state) 1 = Some 7800
   \<and> (22000 :: real) \<noteq> 0
   \<and> GAMMA_L3_SPOT_MOVE cfg1 \<le> \<bar>22300 - 22000\<bar> / 22000
   \<and> (now env1 - 0) / 60 \<le> GAMMA_L3_TIME_WINDOW cfg1
   \<and> \<not> lock_held one_open_state
   \<and> map a_level (db_adjustments (snd (adjust_positions cfg1 env1 1 (Some 22300) one_open_state))) = [3]
   \<and> active_positions (snd (adjust_positions cfg1 env1 1 (Some 22300) one_open_state)) = []
   \<and> adjustment_counts (snd (adjust_positions cfg1 env1 1 (Some 22300) one_open_state)) = []
   \<and> map t_status (db_trades (snd (adjust_positions cfg1 env1 1 (Some 22300) one_open_state)))
       = [''CLOSED'']
   \<and> alerts (snd (adjust_positions cfg1 env1 1 (Some 22300) one_open_state))
       = [EXIT 1 0 0 ''GAMMA_L3'']"
proof -
  have h: "map_of (active_positions one_open_state) 1 = Some four_legs"
    "resolve_spot env1 (Some 22300) one_open_state = Some 22300"
    "map_of (entry_spot one_open_state) 1 = Some 22000"
    "map_of (entry_time one_open_state) 1 = Some 0"
    "map_of (trade_premium one_open_state) 1 = Some 7800"
    "(22000 :: real) \<noteq> 0"
    "GAMMA_L3_SPOT_MOVE cfg1 \<le> \<bar>22300 - 22000\<bar> / 22000"
    "(now env1 - 0) / 60 \<le> GAMMA_L3_TIME_WINDOW cfg1"
    "\<not> lock_held one_open_state"
    by (simp_all add: one_open_state_fields resolve_spot_def truthy_def cfg1_def env1_fields)
  show ?thesis
    using h gamma_level3_acts_alone [OF h]
    by (simp add: one_open_state_fields one_open_mtm update_trade_def open_row_def)
qed

text \<open>
  C2, as stated, fails on the counter.  An engine last used the day before, with a count of
  1, opens a structure: the entry gate first resets the count to the number of trades stored
  for today, 0, and the count after the call is 1, not 2.
\<close>

theorem open_position_rollover_counterexample:
  "fst (open_position cfg1 env1 ''EXPIRY'' rollover_state) = Inr (Some 1)
   \<and> trades_today rollover_state = 1
   \<and> trades_today (snd (open_position cfg1 env1 ''EXPIRY'' rollover_state)) = 1
   \<and> trades_today (snd (open_position cfg1 env1 ''EXPIRY'' rollover_state))
       \<noteq> trades_today rollover_state + 1"
  using open_position_rollover by (simp add: rollover_state_fields)

lemma open_position_gate_failure:
  "\<not> fst (check_entry e s) \<Longrightarrow> fst (open_position cfg e st s) = Inr None"
  by (cases "check_entry e s") (simp add: open_position_def)

lemma open_position_risk_rejection:
  assumes "fst (check_entry e s)" "truthy (spot_price e) = Some spt"
    and "fetch_ltps e spt (time_to_expiry e) (select_strikes cfg e st spt (time_to_expiry e))
           = Inr (ce_px, pe_px, ceh_px, peh_px)"
    and "capital s * (risk_pct s / 100) < \<bar>pe_px\<bar> * of_int (NIFTY_LOT_SIZE * num_lots s)"
  shows "fst (open_position cfg e st s) = Inr None"
proof -
  obtain b s1 where ce: "check_entry e s = (b, s1)" by (cases "check_entry e s")
  from check_entry_state [of e s] ce
  have s1: "s1 = s \<or> s1 = s\<lparr>trades_today := get_trade_count_today (today e) (db_trades s),
                               cur_trade_date := today e\<rparr>"
    by simp
  show ?thesis
    using assms ce s1 by (auto simp: open_position_def Let_def)
qed

lemma build_positions_shape:
  "build_positions e spt T qty strikes (ce_px, pe_px, ceh_px, peh_px) = ps \<Longrightarrow>
   \<exists>ce pe ceh peh. ps = [ce, pe, ceh, peh]
     \<and> side ce = ''SELL'' \<and> \<not> is_hedge ce \<and> side pe = ''SELL'' \<and> \<not> is_hedge pe
     \<and> side ceh = ''BUY'' \<and> is_hedge ceh \<and> side peh = ''BUY'' \<and> is_hedge peh
     \<and> quantity ce = qty \<and> quantity pe = qty \<and> quantity ceh = qty \<and> quantity peh = qty
     \<and> entry_price ce = ce_px \<and> entry_price pe = pe_px
     \<and> entry_price ceh = ceh_px \<and> entry_price peh = peh_px"
  by (cases strikes) (auto simp: build_positions_def Position_def)

text \<open>
  C2, amended: when \<open>open_position\<close> returns a trade id, the structure registered under it
  has exactly 4 legs, 2 SELL core legs and 2 BUY hedge legs, each of quantity lot size times
  number of lots; its net credit is (sum of the SELL entry premiums - sum of the BUY entry
  premiums) times the quantity; and the trades-today counter is 1 above the value the entry
  gate leaves it at, which is its value before the call when the stored trade date is today.
  A gate failure and a risk rejection return no result, and a call that returns no trade id
  changes none of the per-trade dicts.
\<close>

theorem open_position_registers_four_legs:
  "(open_position cfg e st s = (Inr (Some tid), s') \<longrightarrow>
      (\<exists>ce pe ceh peh.
         map_of (active_positions s') tid = Some [ce, pe, ceh, peh]
         \<and> side ce = ''SELL'' \<and> \<not> is_hedge ce \<and> side pe = ''SELL'' \<and> \<not> is_hedge pe
         \<and> side ceh = ''BUY'' \<and> is_hedge ceh \<and> side peh = ''BUY'' \<and> is_hedge peh
         \<and> quantity ce = NIFTY_LOT_SIZE * num_lots s \<and> quantity pe = NIFTY_LOT_SIZE * num_lots s
         \<and> quantity ceh = NIFTY_LOT_SIZE * num_lots s \<and> quantity peh = NIFTY_LOT_SIZE * num_lots s
         \<and> map_of (trade_premium s') tid
             = Some (((entry_price ce + entry_price pe) - (entry_price ceh + entry_price peh))
                       * of_int (NIFTY_LOT_SIZE * num_lots s)))
      \<and> trades_today s' = trades_today (snd (check_entry e s)) + 1
      \<and> (cur_trade_date s = today e \<longrightarrow> trades_today s' = trades_today s + 1))
   \<and> (\<not> fst (check_entry e s) \<longrightarrow> fst (open_position cfg e st s) = Inr None)
   \<and> (fst (check_entry e s) \<and> truthy (spot_price e) = Some spt
        \<and> fetch_ltps e spt (time_to_expiry e) (select_strikes cfg e st spt (time_to_expiry e))
            = Inr (ce_px, pe_px, ceh_px, peh_px)
        \<and> capital s * (risk_pct s / 100) < \<bar>pe_px\<bar> * of_int (NIFTY_LOT_SIZE * num_lots s)
        \<longrightarrow> fst (open_position cfg e st s) = Inr None)
   \<and> (open_position cfg e st s = (r, s'') \<and> (\<forall>t. r \<noteq> Inr (Some t)) \<longrightarrow>
        active_positions s'' = active_positions s \<and> entry_spot s'' = entry_spot s
        \<and> entry_time s'' = entry_time s \<and> adjustment_counts s'' = adjustment_counts s
        \<and> trade_premium s'' = trade_premium s)"
proof -
  have success: "(\<exists>ce pe ceh peh.
         map_of (active_positions s') tid = Some [ce, pe, ceh, peh]
         \<and> side ce = ''SELL'' \<and> \<not> is_hedge ce \<and> side pe = ''SELL'' \<and> \<not> is_hedge pe
         \<and> side ceh = ''BUY'' \<and> is_hedge ceh \<and> side peh = ''BUY'' \<and> is_hedge peh
         \<and> quantity ce = NIFTY_LOT_SIZE * num_lots s \<and> quantity pe = NIFTY_LOT_SIZE * num_lots s
         \<and> quantity ceh = NIFTY_LOT_SIZE * num_lots s \<and> quantity peh = NIFTY_LOT_SIZE * num_lots s
         \<and> map_of (trade_premium s') tid
             = Some (((entry_price ce + entry_price pe) - (entry_price ceh + entry_price peh))
                       * of_int (NIFTY_LOT_SIZE * num_lots s)))
      \<and> trades_today s' = trades_today (snd (check_entry e s)) + 1
      \<and> (cur_trade_date s = today e \<longrightarrow> trades_today s' = trades_today s + 1)"
    if op: "open_position cfg e st s = (Inr (Some tid), s')"
  proof -
    from open_position_success [OF op] obtain spt0 prices where
      ap: "active_positions s' = AList.update tid
          (build_positions e spt0 (time_to_expiry e) (NIFTY_LOT_SIZE * num_lots s)
             (select_strikes cfg e st spt0 (time_to_expiry e)) prices) (active_positions s)"
      and tp: "trade_premium s' = AList.update tid
          ((fst prices + fst (snd prices) - fst (snd (snd prices)) - snd (snd (snd prices)))
             * of_int (NIFTY_LOT_SIZE * num_lots s)) (trade_premium s)"
      and tt: "trades_today s' = trades_today (snd (check_entry e s)) + 1"
      by blast
    obtain a b c d where pr: "prices = (a, b, c, d)" by (cases prices) auto
    from build_positions_shape [OF refl, of e spt0 "time_to_expiry e" "NIFTY_LOT_SIZE * num_lots s"
        "select_strikes cfg e st spt0 (time_to_expiry e)" a b c d]
    obtain ce pe ceh peh where
      bp: "build_positions e spt0 (time_to_expiry e) (NIFTY_LOT_SIZE * num_lots s)
             (select_strikes cfg e st spt0 (time_to_expiry e)) (a, b, c, d) = [ce, pe, ceh, peh]"
      and sh: "side ce = ''SELL''" "\<not> is_hedge ce" "side pe = ''SELL''" "\<not> is_hedge pe"
        "side ceh = ''BUY''" "is_hedge ceh" "side peh = ''BUY''" "is_hedge peh"
        "quantity ce = NIFTY_LOT_SIZE * num_lots s" "quantity pe = NIFTY_LOT_SIZE * num_lots s"
        "quantity ceh = NIFTY_LOT_SIZE * num_lots s" "quantity peh = NIFTY_LOT_SIZE * num_lots s"
        "entry_price ce = a" "entry_price pe = b" "entry_price ceh = c" "entry_price peh = d"
      by blast
    have m1: "map_of (active_positions s') tid = Some [ce, pe, ceh, peh]"
      by (simp add: ap pr bp update_conv')
    have m2: "map_of (trade_premium s') tid
             = Some (((entry_price ce + entry_price pe) - (entry_price ceh + entry_price peh))
                       * of_int (NIFTY_LOT_SIZE * num_lots s))"
      by (simp add: tp pr sh update_conv' algebra_simps)
    have m3: "cur_trade_date s = today e \<longrightarrow> trades_today s' = trades_today s + 1"
      using tt by (simp add: check_entry_today)
    from m1 m2 m3 tt sh show ?thesis by blast
  qed
  from success open_position_gate_failure [of e s cfg st]
    open_position_risk_rejection [of e s spt cfg st ce_px pe_px ceh_px peh_px]
    open_position_failure [of cfg e st s r s'']
  show ?thesis by blast
qed

theorem open_position_registers_four_legs_witness:
  "open_position cfg1 env1 ''EXPIRY'' ready_state
     = (Inr (Some 1), snd (open_position cfg1 env1 ''EXPIRY'' ready_state))
   \<and> cur_trade_date ready_state = today env1
   \<and> (\<exists>ce pe ceh peh.
        map_of (active_positions (snd (open_position cfg1 env1 ''EXPIRY'' ready_state))) 1
          = Some [ce, pe, ceh, peh]
        \<and> side ce = ''SELL'' \<and> side pe = ''SELL'' \<and> side ceh = ''BUY'' \<and> side peh = ''BUY''
        \<and> quantity ce = 65 \<and> quantity pe = 65 \<and> quantity ceh = 65 \<and> quantity peh = 65)
   \<and> trades_today (snd (open_position cfg1 env1 ''EXPIRY'' ready_state)) = 1
   \<and> \<not> fst (check_entry env1 (stop ready_state))
   \<and> open_position cfg1 env1 ''EXPIRY'' (stop ready_state)
       = (Inr None, snd (open_position cfg1 env1 ''EXPIRY'' (stop ready_state)))
   \<and> active_positions (snd (open_position cfg1 env1 ''EXPIRY'' (stop ready_state))) = []
   \<and> fst (check_entry env1 poor_state)
   \<and> truthy (spot_price env1) = Some 22300
   \<and> fetch_ltps env1 22300 (time_to_expiry env1)
        (select_strikes cfg1 env1 ''EXPIRY'' 22300 (time_to_expiry env1)) = Inr (100, 100, 100, 100)
   \<and> capital poor_state * (risk_pct poor_state / 100)
        < \<bar>100\<bar> * of_int (NIFTY_LOT_SIZE * num_lots poor_state)
   \<and> fst (open_position cfg1 env1 ''EXPIRY'' poor_state) = Inr None"
proof -
  let ?s1 = "snd (open_position cfg1 env1 ''EXPIRY'' ready_state)"
  let ?s2 = "snd (open_position cfg1 env1 ''EXPIRY'' (stop ready_state))"
  let ?none = "Inr None :: error + int option"
  note at_ready = open_position_registers_four_legs
      [where cfg = cfg1 and e = env1 and st = "''EXPIRY''" and s = ready_state and tid = 1
         and s' = ?s1 and spt = 22300 and ce_px = 100 and pe_px = 100 and ceh_px = 100
         and peh_px = 100 and r = ?none and s'' = ready_state]
  note at_stopped = open_position_registers_four_legs
      [where cfg = cfg1 and e = env1 and st = "''EXPIRY''" and s = "stop ready_state" and tid = 1
         and s' = ready_state and spt = 22300 and ce_px = 100 and pe_px = 100 and ceh_px = 100
         and peh_px = 100 and r = ?none and s'' = ?s2]
  note at_poor = open_position_registers_four_legs
      [where cfg = cfg1 and e = env1 and st = "''EXPIRY''" and s = poor_state and tid = 1
         and s' = ready_state and spt = 22300 and ce_px = 100 and pe_px = 100 and ceh_px = 100
         and peh_px = 100 and r = ?none and s'' = ready_state]
  note success = conjunct1 [OF at_ready]
  note gate = conjunct1 [OF conjunct2 [OF at_stopped]]
  note unchanged = conjunct2 [OF conjunct2 [OF conjunct2 [OF at_stopped]]]
  note risk = conjunct1 [OF conjunct2 [OF conjunct2 [OF at_poor]]]
  have a: "open_position cfg1 env1 ''EXPIRY'' ready_state = (Inr (Some 1), ?s1)"
    using open_position_ready by (simp add: prod_eq_iff)
  have b: "cur_trade_date ready_state = today env1"
    by (simp add: ready_state_fields env1_fields)
  have c: "\<not> fst (check_entry env1 (stop ready_state))"
    by (simp add: check_entry_def stop_def)
  have e: "fst (check_entry env1 poor_state)"
    by (simp add: check_entry_def Let_def poor_state_def ready_state_fields env1_fields
          MAX_TRADES_PER_DAY_def get_open_trades_def)
  have f: "truthy (spot_price env1) = Some 22300"
    by (simp add: truthy_def env1_fields)
  have g: "fetch_ltps env1 22300 (time_to_expiry env1)
        (select_strikes cfg1 env1 ''EXPIRY'' 22300 (time_to_expiry env1)) = Inr (100, 100, 100, 100)"
    by (cases "select_strikes cfg1 env1 ''EXPIRY'' 22300 (time_to_expiry env1)")
       (simp add: fetch_ltps_env1)
  have h: "capital poor_state * (risk_pct poor_state / 100)
        < \<bar>100\<bar> * of_int (NIFTY_LOT_SIZE * num_lots poor_state)"
    by (simp add: poor_state_def ready_state_fields NIFTY_LOT_SIZE_def)
  have i: "\<forall>t. ?none \<noteq> Inr (Some t)" by simp
  have q: "NIFTY_LOT_SIZE * num_lots ready_state = 65"
    by (simp add: NIFTY_LOT_SIZE_def ready_state_fields)
  note opened = mp [OF success a]
  from conjunct1 [OF opened] obtain ce pe ceh peh where legs:
    "map_of (active_positions ?s1) 1 = Some [ce, pe, ceh, peh]"
    "side ce = ''SELL''" "side pe = ''SELL''" "side ceh = ''BUY''" "side peh = ''BUY''"
    "quantity ce = NIFTY_LOT_SIZE * num_lots ready_state"
    "quantity pe = NIFTY_LOT_SIZE * num_lots ready_state"
    "quantity ceh = NIFTY_LOT_SIZE * num_lots ready_state"
    "quantity peh = NIFTY_LOT_SIZE * num_lots ready_state"
    by (elim exE conjE)
  have w1: "\<exists>ce pe ceh peh.
        map_of (active_positions ?s1) 1 = Some [ce, pe, ceh, peh]
        \<and> side ce = ''SELL'' \<and> side pe = ''SELL'' \<and> side ceh = ''BUY'' \<and> side peh = ''BUY''
        \<and> quantity ce = 65 \<and> quantity pe = 65 \<and> quantity ceh = 65 \<and> quantity peh = 65"
    using legs unfolding q by blast
  have "trades_today ?s1 = trades_today ready_state + 1"
    by (rule mp [OF conjunct2 [OF conjunct2 [OF opened]] b])
  then have w2: "trades_today ?s1 = 1"
    by (simp add: ready_state_fields)
  have "fst (open_position cfg1 env1 ''EXPIRY'' (stop ready_state)) = ?none"
    by (rule mp [OF gate c])
  then have d: "open_position cfg1 env1 ''EXPIRY'' (stop ready_state) = (?none, ?s2)"
    by (simp add: prod_eq_iff)
  have "active_positions ?s2 = active_positions (stop ready_state)"
    by (rule conjunct1 [OF mp [OF unchanged conjI [OF d i]]])
  then have w3: "active_positions ?s2 = []"
    by (simp add: stop_def ready_state_fields)
  have w4: "fst (open_position cfg1 env1 ''EXPIRY'' poor_state) = ?none"
    by (rule mp [OF risk conjI [OF e conjI [OF f conjI [OF g h]]]])
  show ?thesis
    by (intro conjI a b w1 w2 c d w3 e f g h w4)
qed

text \<open>
  C3: at_open a trade id that is not in the live ledger returns a P&L of 0 and leaves the
  whole state as it is (ledger, daily P&L, store, alerts); after any call of
  \<open>close_position\<close> made with the lock free the id is not in the ledger, so a second
  call on it is such a no-op.
\<close>

theorem close_position_unknown_noop:
  "(trade_id \<notin> keys (active_positions s) \<longrightarrow> close_position e trade_id reason s = (Inr 0, s))
   \<and> (\<not> lock_held s \<longrightarrow>
        trade_id \<notin> keys (active_positions (snd (close_position e trade_id reason s)))
        \<and> close_position e2 trade_id reason2 (snd (close_position e trade_id reason s))
            = (Inr 0, snd (close_position e trade_id reason s)))"
  using close_position_closed [of s e trade_id reason]
  by (simp add: close_position_absent map_of_None_keys)

theorem close_position_unknown_noop_witness:
  "7 \<notin> keys (active_positions one_open_state)
   \<and> close_position env1 7 ''MANUAL'' one_open_state = (Inr 0, one_open_state)
   \<and> \<not> lock_held one_open_state
   \<and> 1 \<in> keys (active_positions one_open_state)
   \<and> 1 \<notin> keys (active_positions (snd (close_position env1 1 ''MANUAL'' one_open_state)))
   \<and> close_position env1 1 ''MANUAL'' (snd (close_position env1 1 ''MANUAL'' one_open_state))
       = (Inr 0, snd (close_position env1 1 ''MANUAL'' one_open_state))"
  using close_position_unknown_noop [of 7 one_open_state env1 "''MANUAL''"]
        close_position_unknown_noop [of 1 one_open_state env1 "''MANUAL''" env1 "''MANUAL''"]
  by (simp add: one_open_state_fields keys_def)

text \<open>
  C5 fails on the code.  \<open>reset_day\<close> takes the lock and then calls \<open>close_position\<close>,
  which takes the same non-reentrant lock: with two open structures the call blocks at the
  first of them, nothing is closed, and neither the dicts nor the counters are reset.
\<close>

theorem reset_day_two_open_blocks:
  "reset_day env1 two_open_state = (Inl Deadlock, two_open_state\<lparr>lock_held := True\<rparr>)
   \<and> active_positions (snd (reset_day env1 two_open_state)) = [(1, four_legs), (2, four_legs)]
   \<and> map t_status (db_trades (snd (reset_day env1 two_open_state))) = [''OPEN'', ''OPEN'']
   \<and> trades_today (snd (reset_day env1 two_open_state)) = 2"
proof -
  have "reset_day env1 two_open_state = (Inl Deadlock, two_open_state\<lparr>lock_held := True\<rparr>)"
    by (rule reset_day_blocks) (simp_all add: two_open_state_fields)
  then show ?thesis
    by (simp add: two_open_state_fields open_row_def)
qed

text \<open>
  C10: the code diverges from the claim on \<open>reset_day\<close>.  With one open structure the call
  blocks on its own lock, by the defect shown above for two open structures, and the id of the
  structure stays in all five per-trade dicts, which the claim says are emptied.
\<close>

theorem reset_day_one_open_keeps_keys:
  "fst (reset_day env1 one_open_state) = Inl Deadlock
   \<and> keys (active_positions (snd (reset_day env1 one_open_state))) = {1}
   \<and> keys (entry_spot (snd (reset_day env1 one_open_state))) = {1}
   \<and> keys (entry_time (snd (reset_day env1 one_open_state))) = {1}
   \<and> keys (adjustment_counts (snd (reset_day env1 one_open_state))) = {1}
   \<and> keys (trade_premium (snd (reset_day env1 one_open_state))) = {1}"
proof -
  have "reset_day env1 one_open_state = (Inl Deadlock, one_open_state\<lparr>lock_held := True\<rparr>)"
    by (rule reset_day_blocks) (simp_all add: one_open_state_fields)
  then show ?thesis
    by (simp add: one_open_state_fields keys_def)
qed

section \<open>The sign of the P&L in the paths of the engine\<close>

text \<open>
  The engine reads a positive P&L as a gain.  With every option decayed to 0, where the whole
  premium of 7800 is earned, the mark to market of the structure is -7800.
\<close>

lemma calculate_mtm_full_decay:
  "map_of (trade_premium decayed_state) 1 = Some 7800
   \<and> calculate_mtm decayed_state (Some 1) = - 7800"
  by (simp add: decayed_state_def decayed_legs_def one_open_state_fields calculate_mtm_def
        four_legs_def leg_def pnl_def)

text \<open>
  With the short call risen from 100 to 200 and its hedge from 40 to 70, a loss of 4550, the
  mark to market is 4550, which reaches the profit target of half the premium:
  \<open>check_expiry_targets\<close> closes the structure with the reason TARGET_HIT and books 4550.
\<close>

lemma check_expiry_targets_dearer:
  "calculate_mtm dearer_state (Some 1) = 4550
   \<and> map (\<lambda>r. (t_status r, t_close_reason r, t_realized_pnl r))
        (db_trades (snd (check_expiry_targets cfg1 env1 1 dearer_state)))
       = [(''CLOSED'', Some ''TARGET_HIT'', 4550)]"
proof -
  have f: "active_positions dearer_state = [(1, dearer_legs)]" "\<not> lock_held dearer_state"
    "capital dearer_state = 500000" "trade_premium dearer_state = [(1, 7800)]"
    "db_trades dearer_state = [open_row 1]"
    by (simp_all add: dearer_state_def one_open_state_fields)
  have m: "calculate_mtm dearer_state (Some 1) = 4550"
    by (simp add: calculate_mtm_def f dearer_legs_def leg_def pnl_def)
  have p: "map_of (active_positions dearer_state) 1 \<noteq> None"
    by (simp add: f)
  have c: "check_expiry_targets cfg1 env1 1 dearer_state
             = discard (close_position env1 1 ''TARGET_HIT'' dearer_state)"
    by (simp add: check_expiry_targets_def Let_def f m cfg1_def)
  show ?thesis
    unfolding c discard_snd close_position_present [OF p f(2)]
    by (simp add: m f closed_state_def update_trade_def open_row_def)
qed

end
